theory Spec2Isabelle
  imports Main
begin

section \<open>JavaScript values and the platform\<close>

text \<open>
  The backend is an Express application.  Request bodies, stored documents and database
  columns are JSON values; a field that is absent reads as \<open>undefined\<close>, and a
  property inherited from a built-in prototype can be a function (\<open>JFun\<close>, with its name).  Numbers are
  IEEE doubles: their type is left as the parameter \<open>'n\<close> and their arithmetic is part of
  the platform record below, so that nothing proved here depends on rounding.
  Strings are byte strings (the UTF-8 form of the JavaScript string).
\<close>

datatype 'n jsval =
    JUndef
  | JNull
  | JBool bool
  | JNum 'n
  | JStr string
  | JArr "'n jsval list"
  | JObj "(string \<times> 'n jsval) list"
  | JFun string

text \<open>
  What the code takes from Node.js and its libraries: \<open>crypto\<close> (SHA-256 in hex),
  \<open>String.prototype.normalize\<close> and \<open>toLowerCase\<close>, number arithmetic and coercions,
  \<open>JSON.parse\<close>, \<open>path.extname\<close>, the storage client's \<open>getPublicUrl\<close>, the clock, the
  properties that a value inherits from its prototype (and the elements of an array), and
  the order in which \<open>readdirSync\<close> lists the folders.  A coercion of an object or array can
  throw a TypeError; that is the value \<open>None\<close>.
\<close>

record 'n runtime =
  sha256_hex :: "string \<Rightarrow> string"
  normalizeNFD :: "string \<Rightarrow> string"
  toLowerCase :: "string \<Rightarrow> string"
  num_zero :: 'n
  num_one :: 'n
  num_nan :: 'n
  num_add :: "'n \<Rightarrow> 'n \<Rightarrow> 'n"
  num_mul :: "'n \<Rightarrow> 'n \<Rightarrow> 'n"
  num_isFinite :: "'n \<Rightarrow> bool"
  num_truthy :: "'n \<Rightarrow> bool"
  num_toString :: "'n \<Rightarrow> string"
  str_toNumber :: "string \<Rightarrow> 'n"
  obj_toNumber :: "'n jsval \<Rightarrow> 'n option"
  obj_toString :: "'n jsval \<Rightarrow> string option"
  json_parse :: "string \<Rightarrow> 'n jsval option"
  path_extname :: "string \<Rightarrow> string"
  proto_member :: "'n jsval \<Rightarrow> string \<Rightarrow> 'n jsval"
  readdir :: "string list \<Rightarrow> string list"
  getPublicUrl :: "string \<Rightarrow> string"
  now_iso :: string

datatype exn = TypeError

text \<open>Sequencing of steps that may throw: the first exception ends the computation.\<close>

fun andThen :: "exn + 'a \<Rightarrow> ('a \<Rightarrow> exn + 'b) \<Rightarrow> exn + 'b" where
  "andThen (Inl e) f = Inl e"
| "andThen (Inr x) f = f x"

text \<open>\<open>ToBoolean\<close>: what \<open>!v\<close>, \<open>v || w\<close> and \<open>if (v)\<close> test.\<close>

fun truthy :: "'n runtime \<Rightarrow> 'n jsval \<Rightarrow> bool" where
  "truthy R JUndef = False"
| "truthy R JNull = False"
| "truthy R (JBool b) = b"
| "truthy R (JNum n) = num_truthy R n"
| "truthy R (JStr s) = (s \<noteq> [])"
| "truthy R (JArr xs) = True"
| "truthy R (JObj kvs) = True"
| "truthy R (JFun f) = True"

text \<open>\<open>a || b\<close>.\<close>

definition or_else :: "'n runtime \<Rightarrow> 'n jsval \<Rightarrow> 'n jsval \<Rightarrow> 'n jsval" where
  "or_else R a b = (if truthy R a then a else b)"

text \<open>\<open>Number(v)\<close>.\<close>

fun toNumber :: "'n runtime \<Rightarrow> 'n jsval \<Rightarrow> exn + 'n" where
  "toNumber R JUndef = Inr (num_nan R)"
| "toNumber R JNull = Inr (num_zero R)"
| "toNumber R (JBool b) = Inr (if b then num_one R else num_zero R)"
| "toNumber R (JNum n) = Inr n"
| "toNumber R (JStr s) = Inr (str_toNumber R s)"
| "toNumber R v = (case obj_toNumber R v of None \<Rightarrow> Inl TypeError | Some n \<Rightarrow> Inr n)"

text \<open>\<open>Number(v) || 0\<close>.\<close>

definition number_or_zero :: "'n runtime \<Rightarrow> 'n jsval \<Rightarrow> exn + 'n" where
  "number_or_zero R v =
     andThen (toNumber R v) (\<lambda>n. Inr (if num_truthy R n then n else num_zero R))"

text \<open>\<open>v.toString()\<close>; on \<open>undefined\<close> and \<open>null\<close> the call throws.\<close>

fun toString :: "'n runtime \<Rightarrow> 'n jsval \<Rightarrow> exn + string" where
  "toString R JUndef = Inl TypeError"
| "toString R JNull = Inl TypeError"
| "toString R (JBool b) = Inr (if b then ''true'' else ''false'')"
| "toString R (JNum n) = Inr (num_toString R n)"
| "toString R (JStr s) = Inr s"
| "toString R v = (case obj_toString R v of None \<Rightarrow> Inl TypeError | Some s \<Rightarrow> Inr s)"

text \<open>\<open>String(v)\<close>, which also accepts \<open>undefined\<close> and \<open>null\<close>.\<close>

fun String_of :: "'n runtime \<Rightarrow> 'n jsval \<Rightarrow> exn + string" where
  "String_of R JUndef = Inr ''undefined''"
| "String_of R JNull = Inr ''null''"
| "String_of R v = toString R v"

text \<open>
  Property read \<open>v.k\<close>.  On \<open>undefined\<close> and \<open>null\<close> it throws; on an object it is the
  own property when there is one; everything else is what the platform finds on the
  prototype chain (\<open>undefined\<close> for most keys, a function for a key such as
  \<open>constructor\<close>, or \<open>link\<close> on a string).
\<close>

fun lookup :: "(string \<times> 'v) list \<Rightarrow> string \<Rightarrow> 'v option" where
  "lookup [] k = None"
| "lookup ((k', v) # kvs) k = (if k' = k then Some v else lookup kvs k)"

fun member :: "'n runtime \<Rightarrow> 'n jsval \<Rightarrow> string \<Rightarrow> exn + 'n jsval" where
  "member R JUndef k = Inl TypeError"
| "member R JNull k = Inl TypeError"
| "member R (JObj kvs) k =
     Inr (case lookup kvs k of None \<Rightarrow> proto_member R (JObj kvs) k | Some v \<Rightarrow> v)"
| "member R v k = Inr (proto_member R v k)"

text \<open>Assignment \<open>o[k] = v\<close> on an object: the key keeps its place or is appended.\<close>

fun assign :: "(string \<times> 'v) list \<Rightarrow> string \<Rightarrow> 'v \<Rightarrow> (string \<times> 'v) list" where
  "assign [] k v = [(k, v)]"
| "assign ((k', v') # kvs) k v = (if k' = k then (k, v) # kvs else (k', v') # assign kvs k v)"

text \<open>A request body after \<open>req.body || {}\<close>: the parsed JSON object.\<close>

type_synonym 'n body = "(string \<times> 'n jsval) list"

definition field :: "'n body \<Rightarrow> string \<Rightarrow> 'n jsval" where
  "field b k = (case lookup b k of None \<Rightarrow> JUndef | Some v \<Rightarrow> v)"

text \<open>
  \<open>JSON.parse(JSON.stringify(v))\<close>: what is read back after \<open>v\<close> was written to a file
  or sent to the database.  A number that is not finite becomes \<open>null\<close>; a function and
  \<open>undefined\<close> are dropped from an object and become \<open>null\<close> in an array.  The sign of
  a zero is not tracked.
\<close>

fun jsonify :: "'n runtime \<Rightarrow> 'n jsval \<Rightarrow> 'n jsval" where
  "jsonify R (JNum n) = (if num_isFinite R n then JNum n else JNull)"
| "jsonify R (JFun f) = JUndef"
| "jsonify R (JArr xs) =
     JArr (map (\<lambda>x. if jsonify R x = JUndef then JNull else jsonify R x) xs)"
| "jsonify R (JObj kvs) =
     JObj (filter (\<lambda>kv. snd kv \<noteq> JUndef) (map (\<lambda>kv. (fst kv, jsonify R (snd kv))) kvs))"
| "jsonify R v = v"

text \<open>The literal \<open>{ x: 0, y: 0, z: 0 }\<close>.\<close>

definition origin :: "'n runtime \<Rightarrow> 'n jsval" where
  "origin R = JObj [(''x'', JNum (num_zero R)), (''y'', JNum (num_zero R)), (''z'', JNum (num_zero R))]"


section \<open>Helpers shared by the variants\<close>

text \<open>
  \<open>hashPassword\<close>: \<open>crypto.createHash("sha256").update(password).digest("hex")\<close>.
  \<open>update\<close> accepts a string (or a buffer, which JSON cannot carry) and throws on
  anything else.
\<close>

fun hashPassword :: "'n runtime \<Rightarrow> 'n jsval \<Rightarrow> exn + string" where
  "hashPassword R (JStr s) = Inr (sha256_hex R s)"
| "hashPassword R v = Inl TypeError"

subsection \<open>slugify\<close>

text \<open>
  The first \<open>replace\<close> deletes the combining marks U+0300..U+036F: in UTF-8 these
  are the two-byte sequences CC 80..BF and CD 80..AF.
\<close>

fun strip_marks :: "string \<Rightarrow> string" where
  "strip_marks (a # b # cs) =
     (if (of_char a = (0xCC::nat) \<and> 0x80 \<le> (of_char b :: nat) \<and> (of_char b :: nat) \<le> 0xBF)
         \<or> (of_char a = (0xCD::nat) \<and> 0x80 \<le> (of_char b :: nat) \<and> (of_char b :: nat) \<le> 0xAF)
      then strip_marks cs
      else a # strip_marks (b # cs))"
| "strip_marks cs = cs"

definition alnum :: "char \<Rightarrow> bool" where
  "alnum c = ((97 \<le> (of_char c :: nat) \<and> (of_char c :: nat) \<le> 122)
              \<or> (48 \<le> (of_char c :: nat) \<and> (of_char c :: nat) \<le> 57))"

text \<open>
  \<open>.replace(/[^a-z0-9]+/g, "-")\<close>: every maximal run of other characters becomes one
  hyphen.  The flag says that the scan is inside such a run.
\<close>

fun dash_runs :: "bool \<Rightarrow> string \<Rightarrow> string" where
  "dash_runs in_run [] = []"
| "dash_runs in_run (c # cs) =
     (if alnum c then c # dash_runs False cs
      else if in_run then dash_runs True cs
      else CHR ''-'' # dash_runs True cs)"

text \<open>\<open>.replace(/^-+|-+$/g, "")\<close>.\<close>

definition trim_hyphens :: "string \<Rightarrow> string" where
  "trim_hyphens s =
     rev (dropWhile (\<lambda>c. c = CHR ''-'') (rev (dropWhile (\<lambda>c. c = CHR ''-'') s)))"

definition slug_of_string :: "'n runtime \<Rightarrow> string \<Rightarrow> string" where
  "slug_of_string R s =
     (let t = take 40 (trim_hyphens (dash_runs False (toLowerCase R (strip_marks (normalizeNFD R s)))))
      in if t = [] then ''proyecto'' else t)"

definition slugify :: "'n runtime \<Rightarrow> 'n jsval \<Rightarrow> exn + string" where
  "slugify R str =
     andThen (toString R (or_else R str (JStr ''proyecto''))) (\<lambda>s. Inr (slug_of_string R s))"


section \<open>Requests and responses\<close>

text \<open>
  A multipart request (\<open>upload.single("model")\<close>): the text fields and the uploaded
  file if there is one.  multer delivers a field that is sent once as a string and a
  field that is sent several times as the array of its values.  The temporary copy of
  the upload under \<open>tmp_uploads\<close> is not part of the state.
\<close>

record upload =
  originalname :: string
  filedata :: string

datatype form_value = Once string | Several "string list"

type_synonym form = "(string \<times> form_value) list"

definition form_field :: "form \<Rightarrow> string \<Rightarrow> 'n jsval" where
  "form_field f k =
     (case lookup f k of
        None \<Rightarrow> JUndef
      | Some (Once s) \<Rightarrow> JStr s
      | Some (Several ss) \<Rightarrow> JArr (map JStr ss))"

text \<open>The project as the client sees it; both variants build an object with these keys.\<close>

record 'n view =
  view_id :: string
  view_name :: "'n jsval"
  view_author :: "'n jsval"
  view_date :: "'n jsval"
  view_position :: "'n jsval"
  view_rotation :: "'n jsval"
  view_modelFile :: "'n jsval"
  view_modelUrl :: "'n jsval"
  view_pendingNotes :: "'n jsval"
  view_partsMeta :: "'n jsval"

text \<open>The sheet handed to the XLSX library: its name, the header option and the row objects.\<close>

record 'n workbook =
  sheet_name :: string
  sheet_header :: "string list"
  sheet_rows :: "(string \<times> 'n jsval) list list"

text \<open>
  A response: the status, the \<open>ok\<close> flag and the data of the JSON body as the client
  parses it.  The texts of \<open>message\<close> and \<open>error\<close> are left out.
\<close>

datatype 'n payload =
    NoData
  | ProjectData "'n view"
  | ProjectList "'n view list"
  | CreatedProject string "'n view"
  | CreatedFolder string string string
  | QuoteData string "'n jsval" "'n jsval"
  | QuoteFile "'n jsval"
  | ExcelFile "'n workbook"

record 'n response =
  status :: nat
  ok :: bool
  payload :: "'n payload"

definition failure :: "nat \<Rightarrow> 'n response" where
  "failure code = \<lparr> status = code, ok = False, payload = NoData \<rparr>"

definition success :: "nat \<Rightarrow> 'n payload \<Rightarrow> 'n response" where
  "success code d = \<lparr> status = code, ok = True, payload = d \<rparr>"

text \<open>\<open>"modelo" + (path.extname(req.file.originalname) || "")\<close>.\<close>

definition modelFileName :: "'n runtime \<Rightarrow> upload \<Rightarrow> string" where
  "modelFileName R file = ''modelo'' @ path_extname R (originalname file)"

text \<open>
  The parsing of the \<open>position\<close> and \<open>rotation\<close> form fields on creation: the default
  is kept when the field is empty or is not JSON.
\<close>

definition parse_vector :: "'n runtime \<Rightarrow> form \<Rightarrow> string \<Rightarrow> 'n jsval" where
  "parse_vector R f k =
     (if truthy R (form_field f k :: 'n jsval)
      then (case toString R (form_field f k :: 'n jsval) of
              Inl e \<Rightarrow> origin R
            | Inr s \<Rightarrow> (case json_parse R s of None \<Rightarrow> origin R | Some v \<Rightarrow> v))
      else origin R)"

text \<open>The part record written by the parts-meta route.\<close>

definition part_entry :: "'n runtime \<Rightarrow> 'n body \<Rightarrow> 'n jsval \<Rightarrow> exn + 'n jsval" where
  "part_entry R b oldMeta =
     andThen (member R oldMeta ''name'') (\<lambda>on.
     andThen (member R oldMeta ''notes'') (\<lambda>ono.
     andThen (member R oldMeta ''color'') (\<lambda>oc.
     andThen (member R oldMeta ''materialPreset'') (\<lambda>om.
      Inr (JObj
        [(''name'', if field b ''name'' \<noteq> JUndef then field b ''name'' else or_else R on (JStr [])),
         (''notes'', if field b ''notes'' \<noteq> JUndef then field b ''notes'' else or_else R ono (JStr [])),
         (''color'', if field b ''color'' \<noteq> JUndef then field b ''color''
                     else or_else R oc (JStr ''#22c55e'')),
         (''materialPreset'', if field b ''materialPreset'' \<noteq> JUndef then field b ''materialPreset''
                     else or_else R om (JStr ''plastic''))])))))"

text \<open>
  \<open>meta[key] = entry\<close> for \<open>key = String(partId)\<close>, on the current metadata or \<open>{}\<close>.
  Only an object takes the new key; on any other value the assignment changes nothing,
  and so does the assignment to the key \<open>__proto__\<close>, which sets the prototype.
\<close>

definition put_part :: "'n runtime \<Rightarrow> 'n body \<Rightarrow> 'n jsval \<Rightarrow> exn + 'n jsval" where
  "put_part R b meta =
     (let currentMeta = or_else R meta (JObj []) in
      andThen (String_of R (field b ''partId'')) (\<lambda>key.
      andThen (member R currentMeta key) (\<lambda>old.
      andThen (part_entry R b (or_else R old (JObj []))) (\<lambda>entry.
      Inr (case currentMeta of
             JObj kvs \<Rightarrow> if key = ''__proto__'' then JObj kvs else JObj (assign kvs key entry)
           | v \<Rightarrow> v)))))"

subsection \<open>Quote items\<close>

text \<open>One element of \<open>items.map(...)\<close> in the quote route, in the order the source reads the fields.\<close>

record 'n item =
  concepto :: string
  cantidad :: 'n
  precio :: 'n
  link :: string

definition normalize_item :: "'n runtime \<Rightarrow> 'n jsval \<Rightarrow> exn + 'n item" where
  "normalize_item R it =
     andThen (member R it ''concepto'') (\<lambda>c.
     andThen (toString R (or_else R c (JStr []))) (\<lambda>cs.
     andThen (member R it ''cantidad'') (\<lambda>q.
     andThen (number_or_zero R q) (\<lambda>qn.
     andThen (member R it ''precio'') (\<lambda>p.
     andThen (number_or_zero R p) (\<lambda>pn.
     andThen (member R it ''link'') (\<lambda>l.
     andThen (toString R (or_else R l (JStr []))) (\<lambda>ls.
      Inr \<lparr> concepto = cs, cantidad = qn, precio = pn, link = ls \<rparr>))))))))"

fun normalize_items :: "'n runtime \<Rightarrow> 'n jsval list \<Rightarrow> exn + 'n item list" where
  "normalize_items R [] = Inr []"
| "normalize_items R (it # its) =
     andThen (normalize_item R it) (\<lambda>x.
     andThen (normalize_items R its) (\<lambda>xs. Inr (x # xs)))"

definition item_json :: "'n item \<Rightarrow> 'n jsval" where
  "item_json x = JObj [(''concepto'', JStr (concepto x)), (''cantidad'', JNum (cantidad x)),
                       (''precio'', JNum (precio x)), (''link'', JStr (link x))]"

text \<open>
  \<open>normalizedItems.reduce((acc, it) => acc + it.cantidad * it.precio, 0)\<close>, replaced by 0
  when it is not finite.
\<close>

definition computedTotal :: "'n runtime \<Rightarrow> 'n item list \<Rightarrow> 'n" where
  "computedTotal R xs =
     (let t = foldl (\<lambda>acc x. num_add R acc (num_mul R (cantidad x) (precio x))) (num_zero R) xs
      in if num_isFinite R t then t else num_zero R)"

section \<open>The Supabase variant\<close>

text \<open>
  State: the tables \<open>projects\<close> and \<open>quotes\<close> and the storage bucket of the models.
  A table is the list of its rows in insertion order.  The client sends the values of
  an insert, update or upsert as JSON, so a column holds \<open>jsonify\<close> of the value handed
  to the call.
\<close>

record 'n project_row =
  row_id :: string
  row_name :: "'n jsval"
  row_author :: "'n jsval"
  row_project_date :: "'n jsval"
  row_password_hash :: "'n jsval"
  row_position :: "'n jsval"
  row_rotation :: "'n jsval"
  row_model_path :: "string option"
  row_model_filename :: "string option"
  row_pending_notes :: "'n jsval"
  row_parts_meta :: "'n jsval"

record 'n quote_row =
  quote_project_id :: string
  quote_items :: "'n jsval"
  quote_total :: "'n jsval"
  quote_updated_at :: string

record 'n db =
  projects :: "'n project_row list"
  quotes :: "'n quote_row list"
  bucket :: "(string \<times> string) list"

text \<open>
  Every call of the Supabase client returns \<open>{ data, error }\<close>.  Whether a call comes
  back with an error that the tables do not explain (the network, a constraint of the
  schema, which is not in the repository) is a parameter of each request: the set of
  calls that fail.  \<open>PGRST116\<close> is the error of \<open>.single()\<close> when the rows selected
  are not exactly one.
\<close>

datatype db_call =
    SelectProject | InsertProject | UpdateProject | DeleteProject
  | SelectQuote | UpsertQuote | UploadObject | RemoveObject

datatype db_error = PGRST116 | OtherError

type_synonym faults = "db_call \<Rightarrow> bool"

definition no_faults :: faults where
  "no_faults c = False"

definition single :: "'a list \<Rightarrow> db_error + 'a" where
  "single rows = (case rows of [r] \<Rightarrow> Inr r | _ \<Rightarrow> Inl PGRST116)"

definition getProjectById :: "faults \<Rightarrow> 'n db \<Rightarrow> string \<Rightarrow> db_error + 'n project_row" where
  "getProjectById fails d i =
     (if fails SelectProject then Inl OtherError
      else single (filter (\<lambda>r. row_id r = i) (projects d)))"

text \<open>\<open>.from("projects").update(patch).eq("id", id).select().single()\<close>.\<close>

definition update_project ::
  "faults \<Rightarrow> 'n db \<Rightarrow> string \<Rightarrow> ('n project_row \<Rightarrow> 'n project_row) \<Rightarrow> 'n db \<times> (db_error + 'n project_row)" where
  "update_project fails d i patch =
     (if fails UpdateProject then (d, Inl OtherError)
      else let rows = map (\<lambda>r. if row_id r = i then patch r else r) (projects d)
           in (d\<lparr>projects := rows\<rparr>, single (filter (\<lambda>r. row_id r = i) rows)))"

text \<open>\<open>.storage.from(bucket).upload(path, data, { upsert: true })\<close> and \<open>.remove([path])\<close>.\<close>

definition upload_object :: "faults \<Rightarrow> 'n db \<Rightarrow> string \<Rightarrow> string \<Rightarrow> ('n db) option" where
  "upload_object fails d path bytes =
     (if fails UploadObject then None else Some (d\<lparr>bucket := assign (bucket d) path bytes\<rparr>))"

definition remove_object :: "faults \<Rightarrow> 'n db \<Rightarrow> string \<Rightarrow> 'n db" where
  "remove_object fails d path =
     (if fails RemoveObject then d else d\<lparr>bucket := filter (\<lambda>(p, b). p \<noteq> path) (bucket d)\<rparr>)"

text \<open>\<open>if (project.model_path) await ... .remove([project.model_path])\<close>; the result is not inspected.\<close>

definition remove_model :: "faults \<Rightarrow> 'n db \<Rightarrow> 'n project_row \<Rightarrow> 'n db" where
  "remove_model fails d project =
     (case row_model_path project of
        None \<Rightarrow> d
      | Some path \<Rightarrow> if path = [] then d else remove_object fails d path)"

definition string_or_null :: "string option \<Rightarrow> 'n jsval" where
  "string_or_null s = (case s of None \<Rightarrow> JNull | Some t \<Rightarrow> if t = [] then JNull else JStr t)"

definition projectRowToView :: "'n runtime \<Rightarrow> 'n project_row \<Rightarrow> 'n view" where
  "projectRowToView R row =
     \<lparr> view_id = row_id row,
       view_name = row_name row,
       view_author = or_else R (row_author row) (JStr []),
       view_date = or_else R (row_project_date row) (JStr []),
       view_position = or_else R (row_position row) (origin R),
       view_rotation = or_else R (row_rotation row) (origin R),
       view_modelFile = string_or_null (row_model_filename row),
       view_modelUrl = (case row_model_path row of
                          None \<Rightarrow> JNull
                        | Some path \<Rightarrow> if path = [] then JNull else JStr (getPublicUrl R path)),
       view_pendingNotes = or_else R (row_pending_notes row) (JStr []),
       view_partsMeta = or_else R (row_parts_meta row) (JObj []) \<rparr>"

text \<open>
  The common end of the updating routes: the update call, then 500 on its error and
  otherwise 200 with the view of the row it returned.
\<close>

definition sb_update_and_reply ::
  "'n runtime \<Rightarrow> faults \<Rightarrow> 'n db \<Rightarrow> string \<Rightarrow> ('n project_row \<Rightarrow> 'n project_row) \<Rightarrow> 'n db \<times> 'n response" where
  "sb_update_and_reply R fails d i patch =
     (case update_project fails d i patch of
        (d', Inl e) \<Rightarrow> (d', failure 500)
      | (d', Inr updated) \<Rightarrow> (d', success 200 (ProjectData (projectRowToView R updated))))"

text \<open>\<open>POST /api/projects\<close>.\<close>

definition sb_create :: "'n runtime \<Rightarrow> faults \<Rightarrow> 'n db \<Rightarrow> form \<Rightarrow> upload option \<Rightarrow> 'n db \<times> 'n response" where
  "sb_create R fails d f file =
     (let projectName = form_field f ''projectName''; password = form_field f ''password'' in
      case file of
        None \<Rightarrow> (d, failure 400)
      | Some up \<Rightarrow>
          if \<not> truthy R projectName \<or> \<not> truthy R password then (d, failure 400)
          else (case slugify R projectName of
            Inl e \<Rightarrow> (d, failure 500)
          | Inr folderSlug \<Rightarrow>
              let objectPath = folderSlug @ ''/'' @ modelFileName R up in
              (case upload_object fails d objectPath (filedata up) of
                 None \<Rightarrow> (d, failure 500)
               | Some d1 \<Rightarrow>
                  (case hashPassword R password of
                     Inl e \<Rightarrow> (d1, failure 500)
                   | Inr passwordHash \<Rightarrow>
                       if fails InsertProject then (d1, failure 500)
                       else
                         let inserted =
                           \<lparr> row_id = folderSlug,
                             row_name = jsonify R projectName,
                             row_author = jsonify R (or_else R (form_field f ''author'') (JStr [])),
                             row_project_date =
                               jsonify R (or_else R (form_field f ''date'') (JStr (take 10 (now_iso R)))),
                             row_password_hash = JStr passwordHash,
                             row_position = jsonify R (parse_vector R f ''position''),
                             row_rotation = jsonify R (parse_vector R f ''rotation''),
                             row_model_path = Some objectPath,
                             row_model_filename = Some (modelFileName R up),
                             row_pending_notes = JStr [],
                             row_parts_meta = JObj [] \<rparr>
                         in (d1\<lparr>projects := projects d1 @ [inserted]\<rparr>,
                             success 201 (CreatedProject (row_id inserted)
                                            (projectRowToView R inserted)))))))"



text \<open>\<open>PUT /api/projects/:id/transform\<close>.\<close>

text \<open>\<open>requested || stored || { x: 0, y: 0, z: 0 }\<close>.\<close>

definition chosen :: "'n runtime \<Rightarrow> 'n jsval \<Rightarrow> 'n jsval \<Rightarrow> 'n jsval" where
  "chosen R requested stored = or_else R requested (or_else R stored (origin R))"

definition sb_transform :: "'n runtime \<Rightarrow> faults \<Rightarrow> 'n db \<Rightarrow> string \<Rightarrow> 'n body \<Rightarrow> 'n db \<times> 'n response" where
  "sb_transform R fails d i b =
     (case getProjectById fails d i of
        Inl PGRST116 \<Rightarrow> (d, failure 404)
      | Inl OtherError \<Rightarrow> (d, failure 500)
      | Inr project \<Rightarrow>
          let write = sb_update_and_reply R fails d i
                (\<lambda>r. r\<lparr> row_position := jsonify R (chosen R (field b ''position'') (row_position project)),
                         row_rotation := jsonify R (chosen R (field b ''rotation'') (row_rotation project)) \<rparr>)
          in if truthy R (field b ''password'')
             then (case hashPassword R (field b ''password'') of
                     Inl e \<Rightarrow> (d, failure 500)
                   | Inr hash \<Rightarrow>
                       if JStr hash \<noteq> row_password_hash project then (d, failure 403) else write)
             else write)"

text \<open>\<open>PUT /api/projects/:id/model\<close>.\<close>

definition sb_model :: "'n runtime \<Rightarrow> faults \<Rightarrow> 'n db \<Rightarrow> string \<Rightarrow> upload option \<Rightarrow> 'n db \<times> 'n response" where
  "sb_model R fails d i file =
     (case file of
        None \<Rightarrow> (d, failure 400)
      | Some up \<Rightarrow>
         (case getProjectById fails d i of
            Inl PGRST116 \<Rightarrow> (d, failure 404)
          | Inl OtherError \<Rightarrow> (d, failure 500)
          | Inr project \<Rightarrow>
              let d1 = remove_model fails d project;
                  objectPath = i @ ''/'' @ modelFileName R up
              in (case upload_object fails d1 objectPath (filedata up) of
                    None \<Rightarrow> (d1, failure 500)
                  | Some d2 \<Rightarrow>
                      sb_update_and_reply R fails d2 i
                        (\<lambda>r. r\<lparr> row_model_path := Some objectPath,
                                 row_model_filename := Some (modelFileName R up) \<rparr>))))"

text \<open>
  The routes that demand a password share their middle part: the lookup of the project
  (404, 500), the hash of the password and its comparison with the stored hash (403),
  and then the action.
\<close>

definition sb_authorized ::
  "'n runtime \<Rightarrow> faults \<Rightarrow> 'n db \<Rightarrow> string \<Rightarrow> 'n jsval \<Rightarrow>
     ('n project_row \<Rightarrow> 'n db \<times> 'n response) \<Rightarrow> 'n db \<times> 'n response" where
  "sb_authorized R fails d i password action =
     (case getProjectById fails d i of
        Inl PGRST116 \<Rightarrow> (d, failure 404)
      | Inl OtherError \<Rightarrow> (d, failure 500)
      | Inr project \<Rightarrow>
         (case hashPassword R password of
            Inl e \<Rightarrow> (d, failure 500)
          | Inr hash \<Rightarrow>
              if JStr hash \<noteq> row_password_hash project then (d, failure 403)
              else action project))"

text \<open>\<open>PUT /api/projects/:id/rename\<close>.\<close>

definition sb_rename :: "'n runtime \<Rightarrow> faults \<Rightarrow> 'n db \<Rightarrow> string \<Rightarrow> 'n body \<Rightarrow> 'n db \<times> 'n response" where
  "sb_rename R fails d i b =
     (if \<not> truthy R (field b ''name'') \<or> \<not> truthy R (field b ''password'') then (d, failure 400)
      else sb_authorized R fails d i (field b ''password'')
             (\<lambda>project. sb_update_and_reply R fails d i (\<lambda>r. r\<lparr> row_name := jsonify R (field b ''name'') \<rparr>)))"

text \<open>\<open>PUT /api/projects/:id/notes\<close>.\<close>

definition is_string :: "'n jsval \<Rightarrow> bool" where
  "is_string v = (case v of JStr s \<Rightarrow> True | _ \<Rightarrow> False)"

definition sb_notes :: "'n runtime \<Rightarrow> faults \<Rightarrow> 'n db \<Rightarrow> string \<Rightarrow> 'n body \<Rightarrow> 'n db \<times> 'n response" where
  "sb_notes R fails d i b =
     (if \<not> is_string (field b ''notes'') \<or> \<not> truthy R (field b ''password'') then (d, failure 400)
      else sb_authorized R fails d i (field b ''password'')
             (\<lambda>project. sb_update_and_reply R fails d i
                           (\<lambda>r. r\<lparr> row_pending_notes := jsonify R (field b ''notes'') \<rparr>)))"

text \<open>\<open>PUT /api/projects/:id/parts-meta\<close>.\<close>

definition sb_parts_meta :: "'n runtime \<Rightarrow> faults \<Rightarrow> 'n db \<Rightarrow> string \<Rightarrow> 'n body \<Rightarrow> 'n db \<times> 'n response" where
  "sb_parts_meta R fails d i b =
     (if field b ''partId'' = JUndef \<or> \<not> truthy R (field b ''password'') then (d, failure 400)
      else sb_authorized R fails d i (field b ''password'')
             (\<lambda>project.
                case put_part R b (row_parts_meta project) of
                  Inl e \<Rightarrow> (d, failure 500)
                | Inr currentMeta \<Rightarrow>
                    sb_update_and_reply R fails d i (\<lambda>r. r\<lparr> row_parts_meta := jsonify R currentMeta \<rparr>)))"

text \<open>\<open>DELETE /api/projects/:id\<close>.\<close>

definition sb_delete :: "'n runtime \<Rightarrow> faults \<Rightarrow> 'n db \<Rightarrow> string \<Rightarrow> 'n body \<Rightarrow> 'n db \<times> 'n response" where
  "sb_delete R fails d i b =
     (if \<not> truthy R (field b ''password'') then (d, failure 400)
      else sb_authorized R fails d i (field b ''password'')
             (\<lambda>project.
                let d1 = remove_model fails d project in
                if fails DeleteProject then (d1, failure 500)
                else (d1\<lparr>projects := filter (\<lambda>r. row_id r \<noteq> i) (projects d1)\<rparr>,
                      success 200 NoData)))"

subsection \<open>Quotes in the Supabase variant\<close>

definition select_quote :: "faults \<Rightarrow> 'n db \<Rightarrow> string \<Rightarrow> db_error + 'n quote_row" where
  "select_quote fails d i =
     (if fails SelectQuote then Inl OtherError
      else single (filter (\<lambda>q. quote_project_id q = i) (quotes d)))"

text \<open>\<open>.upsert(row, { onConflict: "project_id" })\<close>: the row of that project is replaced, or the row is added.\<close>

definition upsert_quote :: "'n quote_row list \<Rightarrow> 'n quote_row \<Rightarrow> 'n quote_row list" where
  "upsert_quote rows row =
     (if quote_project_id row \<in> set (map quote_project_id rows)
      then map (\<lambda>q. if quote_project_id q = quote_project_id row then row else q) rows
      else rows @ [row])"

definition quote_reply :: "'n runtime \<Rightarrow> 'n quote_row \<Rightarrow> 'n payload" where
  "quote_reply R data =
     QuoteData (quote_project_id data)
       (or_else R (quote_items data) (JArr []))
       (or_else R (quote_total data) (JNum (num_zero R)))"

text \<open>\<open>GET /api/quotes/:id\<close>.\<close>

definition sb_get_quote :: "'n runtime \<Rightarrow> faults \<Rightarrow> 'n db \<Rightarrow> string \<Rightarrow> 'n response" where
  "sb_get_quote R fails d i =
     (case select_quote fails d i of
        Inl PGRST116 \<Rightarrow> failure 404
      | Inl OtherError \<Rightarrow> failure 500
      | Inr data \<Rightarrow> success 200 (quote_reply R data))"

text \<open>\<open>typeof total === "number" && isFinite(total) ? total : computedTotal\<close>.\<close>

definition sb_finalTotal :: "'n runtime \<Rightarrow> 'n jsval \<Rightarrow> 'n item list \<Rightarrow> 'n" where
  "sb_finalTotal R tot xs =
     (case tot of
        JNum t \<Rightarrow> if num_isFinite R t then t else computedTotal R xs
      | _ \<Rightarrow> computedTotal R xs)"

text \<open>The row that the quote route upserts.\<close>

definition sb_quote_row :: "'n runtime \<Rightarrow> string \<Rightarrow> 'n item list \<Rightarrow> 'n \<Rightarrow> 'n quote_row" where
  "sb_quote_row R i xs t =
     \<lparr> quote_project_id = i, quote_items = jsonify R (JArr (map item_json xs)),
       quote_total = jsonify R (JNum t),
       quote_updated_at = now_iso R \<rparr>"

text \<open>\<open>PUT /api/quotes/:id\<close>.\<close>

definition sb_put_quote :: "'n runtime \<Rightarrow> faults \<Rightarrow> 'n db \<Rightarrow> string \<Rightarrow> 'n body \<Rightarrow> 'n db \<times> 'n response" where
  "sb_put_quote R fails d i b =
     (case field b ''items'' of
        JArr its \<Rightarrow>
          if \<not> truthy R (field b ''password'') then (d, failure 400)
          else sb_authorized R fails d i (field b ''password'')
            (\<lambda>project.
               case normalize_items R its of
                 Inl e \<Rightarrow> (d, failure 500)
               | Inr normalizedItems \<Rightarrow>
                   if fails UpsertQuote then (d, failure 500)
                   else
                     let upserted = sb_quote_row R i normalizedItems
                                      (sb_finalTotal R (field b ''total'') normalizedItems)
                     in (d\<lparr>quotes := upsert_quote (quotes d) upserted\<rparr>,
                         success 200 (quote_reply R upserted)))
      | _ \<Rightarrow> (d, failure 400))"

text \<open>\<open>buildQuoteWorkbook\<close> of the Supabase variant.\<close>

definition sheet_title :: string where
  "sheet_title = ''Cotizaci'' @ [char_of (0xC3::nat), char_of (0xB3::nat)] @ ''n''"

definition quote_columns :: "string list" where
  "quote_columns = [''Concepto'', ''Cantidad'', ''Precio'', ''Importe'']"

definition sb_item_row :: "'n runtime \<Rightarrow> 'n jsval \<Rightarrow> exn + (string \<times> 'n jsval) list" where
  "sb_item_row R it =
     andThen (member R it ''cantidad'') (\<lambda>q.
     andThen (number_or_zero R q) (\<lambda>cantidad.
     andThen (member R it ''precio'') (\<lambda>p.
     andThen (number_or_zero R p) (\<lambda>precio.
     andThen (member R it ''concepto'') (\<lambda>c.
      Inr [(''Concepto'', c), (''Cantidad'', JNum cantidad), (''Precio'', JNum precio),
           (''Importe'', JNum (num_mul R cantidad precio))])))))"

fun map_rows :: "('a \<Rightarrow> exn + 'b) \<Rightarrow> 'a list \<Rightarrow> exn + 'b list" where
  "map_rows f [] = Inr []"
| "map_rows f (x # xs) = andThen (f x) (\<lambda>y. andThen (map_rows f xs) (\<lambda>ys. Inr (y # ys)))"

text \<open>\<open>(quoteDoc.items || []).map(f)\<close>: only an array has \<open>map\<close>.\<close>

definition map_items ::
  "'n runtime \<Rightarrow> ('n jsval \<Rightarrow> exn + 'b) \<Rightarrow> 'n jsval \<Rightarrow> exn + 'b list" where
  "map_items R f quoteDoc =
     andThen (member R quoteDoc ''items'') (\<lambda>items.
       case or_else R items (JArr []) of
         JArr its \<Rightarrow> map_rows f its
       | _ \<Rightarrow> Inl TypeError)"

definition total_row :: "'n jsval \<Rightarrow> (string \<times> 'n jsval) list" where
  "total_row importe =
     [(''Concepto'', JStr ''TOTAL''), (''Cantidad'', JStr []), (''Precio'', JStr []), (''Importe'', importe)]"

definition sb_buildQuoteWorkbook :: "'n runtime \<Rightarrow> 'n jsval \<Rightarrow> exn + 'n workbook" where
  "sb_buildQuoteWorkbook R quoteDoc =
     andThen (map_items R (sb_item_row R) quoteDoc) (\<lambda>rows.
     andThen (member R quoteDoc ''total'') (\<lambda>tot.
     andThen (number_or_zero R tot) (\<lambda>t.
      Inr \<lparr> sheet_name = sheet_title, sheet_header = quote_columns,
            sheet_rows = rows @ [[], total_row (JNum t)] \<rparr>)))"

text \<open>\<open>GET /api/quotes/:id/excel\<close>.\<close>

definition sb_quoteDoc :: "'n runtime \<Rightarrow> 'n quote_row \<Rightarrow> 'n jsval" where
  "sb_quoteDoc R data =
     JObj [(''projectId'', JStr (quote_project_id data)),
           (''items'', or_else R (quote_items data) (JArr [])),
           (''total'', or_else R (quote_total data) (JNum (num_zero R)))]"

definition sb_excel :: "'n runtime \<Rightarrow> faults \<Rightarrow> 'n db \<Rightarrow> string \<Rightarrow> 'n response" where
  "sb_excel R fails d i =
     (case select_quote fails d i of
        Inl PGRST116 \<Rightarrow> failure 404
      | Inl OtherError \<Rightarrow> failure 500
      | Inr data \<Rightarrow>
         (case sb_buildQuoteWorkbook R (sb_quoteDoc R data) of
            Inl e \<Rightarrow> failure 500
          | Inr wb \<Rightarrow> success 200 (ExcelFile wb)))"


section \<open>The filesystem variant\<close>

text \<open>
  State: the folders under \<open>public/\<close>, each with its \<open>scene.json\<close>, its other files
  (the model) and its \<open>cotizacion.json\<close>.  A JSON file is identified with the value it
  parses to; writing a document with \<open>JSON.stringify\<close> therefore stores \<open>jsonify\<close> of it.  The second program of \<open>server.js\<close> and the unnamed source file have the
  same project routes; the quote routes are in the former only.
\<close>

record 'n scene_doc =
  doc_projectName :: "'n jsval"
  doc_author :: "'n jsval"
  doc_date :: "'n jsval"
  doc_passwordHash :: "'n jsval"
  doc_position :: "'n jsval"
  doc_rotation :: "'n jsval"
  doc_modelFile :: "string option"
  doc_pendingNotes :: "'n jsval"
  doc_partsMeta :: "'n jsval"

record 'n folder =
  scene_json :: "'n scene_doc option"
  files :: "(string \<times> string) list"
  cotizacion_json :: "'n jsval option"

type_synonym 'n disk = "(string \<times> 'n folder) list"

definition empty_folder :: "'n folder" where
  "empty_folder = \<lparr> scene_json = None, files = [], cotizacion_json = None \<rparr>"

text \<open>The folder of a project, created when missing (\<open>mkdirSync(dir, { recursive: true })\<close>).\<close>

definition folder_of :: "'n disk \<Rightarrow> string \<Rightarrow> 'n folder" where
  "folder_of disk name = (case lookup disk name of None \<Rightarrow> empty_folder | Some fo \<Rightarrow> fo)"

text \<open>The object that \<open>readScene\<close> returns.\<close>

record 'n scene =
  scene_id :: string
  scene_name :: "'n jsval"
  scene_author :: "'n jsval"
  scene_date :: "'n jsval"
  scene_position :: "'n jsval"
  scene_rotation :: "'n jsval"
  scene_passwordHash :: "'n jsval"
  scene_modelFile :: "'n jsval"
  scene_modelUrl :: "'n jsval"
  scene_pendingNotes :: "'n jsval"
  scene_partsMeta :: "'n jsval"
  scene_raw :: "'n scene_doc"

definition scene_of :: "'n runtime \<Rightarrow> string \<Rightarrow> 'n scene_doc \<Rightarrow> 'n scene" where
  "scene_of R folder sceneDoc =
     \<lparr> scene_id = folder,
       scene_name = or_else R (doc_projectName sceneDoc) (JStr folder),
       scene_author = or_else R (doc_author sceneDoc) (JStr []),
       scene_date = or_else R (doc_date sceneDoc) (JStr []),
       scene_position = or_else R (doc_position sceneDoc) (origin R),
       scene_rotation = or_else R (doc_rotation sceneDoc) (origin R),
       scene_passwordHash = or_else R (doc_passwordHash sceneDoc) (JStr []),
       scene_modelFile = string_or_null (doc_modelFile sceneDoc),
       scene_modelUrl =
         (case doc_modelFile sceneDoc of
            None \<Rightarrow> JNull
          | Some m \<Rightarrow> if m = [] then JNull else JStr (''/public/'' @ folder @ ''/'' @ m)),
       scene_pendingNotes = or_else R (doc_pendingNotes sceneDoc) (JStr []),
       scene_partsMeta = or_else R (doc_partsMeta sceneDoc) (JObj []),
       scene_raw = sceneDoc \<rparr>"

definition readScene :: "'n runtime \<Rightarrow> 'n disk \<Rightarrow> string \<Rightarrow> 'n scene option" where
  "readScene R disk folder =
     (case lookup disk folder of
        None \<Rightarrow> None
      | Some fo \<Rightarrow>
         (case scene_json fo of
            None \<Rightarrow> None
          | Some sceneDoc \<Rightarrow> Some (scene_of R folder sceneDoc)))"

text \<open>\<open>JSON.stringify(sceneDoc)\<close> as it is read back.\<close>

definition jsonify_doc :: "'n runtime \<Rightarrow> 'n scene_doc \<Rightarrow> 'n scene_doc" where
  "jsonify_doc R sceneDoc =
     \<lparr> doc_projectName = jsonify R (doc_projectName sceneDoc),
       doc_author = jsonify R (doc_author sceneDoc),
       doc_date = jsonify R (doc_date sceneDoc),
       doc_passwordHash = jsonify R (doc_passwordHash sceneDoc),
       doc_position = jsonify R (doc_position sceneDoc),
       doc_rotation = jsonify R (doc_rotation sceneDoc),
       doc_modelFile = doc_modelFile sceneDoc,
       doc_pendingNotes = jsonify R (doc_pendingNotes sceneDoc),
       doc_partsMeta = jsonify R (doc_partsMeta sceneDoc) \<rparr>"

definition writeScene :: "'n runtime \<Rightarrow> 'n disk \<Rightarrow> string \<Rightarrow> 'n scene_doc \<Rightarrow> 'n disk" where
  "writeScene R disk folder sceneDoc =
     assign disk folder ((folder_of disk folder)\<lparr> scene_json := Some (jsonify_doc R sceneDoc) \<rparr>)"

text \<open>\<open>const { _raw, passwordHash, ...view } = scene\<close>.\<close>

definition rest_view :: "'n scene \<Rightarrow> 'n view" where
  "rest_view scene =
     \<lparr> view_id = scene_id scene,
       view_name = scene_name scene,
       view_author = scene_author scene,
       view_date = scene_date scene,
       view_position = scene_position scene,
       view_rotation = scene_rotation scene,
       view_modelFile = scene_modelFile scene,
       view_modelUrl = scene_modelUrl scene,
       view_pendingNotes = scene_pendingNotes scene,
       view_partsMeta = scene_partsMeta scene \<rparr>"

text \<open>
  The common end of the updating routes: the document is written, read again and its
  view returned.
\<close>

definition fs_write_and_reply ::
  "'n runtime \<Rightarrow> 'n disk \<Rightarrow> string \<Rightarrow> 'n scene_doc \<Rightarrow> 'n disk \<times> 'n response" where
  "fs_write_and_reply R disk folder sceneDoc =
     (let disk' = writeScene R disk folder sceneDoc in
      case readScene R disk' folder of
        None \<Rightarrow> (disk', failure 500)
      | Some updated \<Rightarrow> (disk', success 200 (ProjectData (rest_view updated))))"

text \<open>\<open>POST /api/projects\<close>.\<close>

definition fs_create :: "'n runtime \<Rightarrow> 'n disk \<Rightarrow> form \<Rightarrow> upload option \<Rightarrow> 'n disk \<times> 'n response" where
  "fs_create R disk f file =
     (let projectName = form_field f ''projectName''; password = form_field f ''password'' in
      case file of
        None \<Rightarrow> (disk, failure 400)
      | Some up \<Rightarrow>
          if \<not> truthy R projectName \<or> \<not> truthy R password then (disk, failure 400)
          else (case slugify R projectName of
            Inl e \<Rightarrow> (disk, failure 500)
          | Inr folderSlug \<Rightarrow>
              let dir = folder_of disk folderSlug;
                  disk1 = assign disk folderSlug
                            (dir\<lparr> files := assign (files dir) (modelFileName R up) (filedata up) \<rparr>)
              in (case hashPassword R password of
                    Inl e \<Rightarrow> (disk1, failure 500)
                  | Inr hash \<Rightarrow>
                      (writeScene R disk1 folderSlug
                         \<lparr> doc_projectName = projectName,
                           doc_author = or_else R (form_field f ''author'') (JStr []),
                           doc_date = or_else R (form_field f ''date'') (JStr (take 10 (now_iso R))),
                           doc_passwordHash = JStr hash,
                           doc_position = parse_vector R f ''position'',
                           doc_rotation = parse_vector R f ''rotation'',
                           doc_modelFile = Some (modelFileName R up),
                           doc_pendingNotes = JStr [],
                           doc_partsMeta = JObj [] \<rparr>,
                       success 201 (CreatedFolder folderSlug (''public/'' @ folderSlug)
                                      (modelFileName R up))))))"



text \<open>\<open>PUT /api/projects/:id/transform\<close>.\<close>

definition fs_transform :: "'n runtime \<Rightarrow> 'n disk \<Rightarrow> string \<Rightarrow> 'n body \<Rightarrow> 'n disk \<times> 'n response" where
  "fs_transform R disk folder b =
     (case readScene R disk folder of
        None \<Rightarrow> (disk, failure 404)
      | Some scene \<Rightarrow>
          let write = fs_write_and_reply R disk folder
                ((scene_raw scene)\<lparr> doc_position := or_else R (field b ''position'') (scene_position scene),
                                    doc_rotation := or_else R (field b ''rotation'') (scene_rotation scene) \<rparr>)
          in if truthy R (field b ''password'')
             then (case hashPassword R (field b ''password'') of
                     Inl e \<Rightarrow> (disk, failure 500)
                   | Inr hash \<Rightarrow>
                       if JStr hash \<noteq> scene_passwordHash scene then (disk, failure 403) else write)
             else write)"

text \<open>\<open>PUT /api/projects/:id/model\<close>.\<close>

definition fs_model :: "'n runtime \<Rightarrow> 'n disk \<Rightarrow> string \<Rightarrow> upload option \<Rightarrow> 'n disk \<times> 'n response" where
  "fs_model R disk folder file =
     (case readScene R disk folder of
        None \<Rightarrow> (disk, failure 404)
      | Some scene \<Rightarrow>
         (case file of
            None \<Rightarrow> (disk, failure 400)
          | Some up \<Rightarrow>
              let dir = folder_of disk folder;
                  kept = (case doc_modelFile (scene_raw scene) of
                            None \<Rightarrow> files dir
                          | Some old \<Rightarrow> if old = [] then files dir
                                       else filter (\<lambda>(name, bytes). name \<noteq> old) (files dir));
                  disk1 = assign disk folder
                            (dir\<lparr> files := assign kept (modelFileName R up) (filedata up) \<rparr>)
              in fs_write_and_reply R disk1 folder
                   ((scene_raw scene)\<lparr> doc_modelFile := Some (modelFileName R up) \<rparr>)))"

text \<open>
  The routes that demand a password: after the lookup of the scene (404) and the
  check of the fields (400), the hash of the password is compared with the stored one (403).
\<close>

definition fs_authorized ::
  "'n runtime \<Rightarrow> 'n disk \<Rightarrow> 'n scene \<Rightarrow> 'n jsval \<Rightarrow> 'n disk \<times> 'n response \<Rightarrow> 'n disk \<times> 'n response" where
  "fs_authorized R disk scene password action =
     (case hashPassword R password of
        Inl e \<Rightarrow> (disk, failure 500)
      | Inr hash \<Rightarrow> if JStr hash \<noteq> scene_passwordHash scene then (disk, failure 403) else action)"

text \<open>\<open>PUT /api/projects/:id/rename\<close>, \<open>/notes\<close> and \<open>/parts-meta\<close>.\<close>

definition fs_rename :: "'n runtime \<Rightarrow> 'n disk \<Rightarrow> string \<Rightarrow> 'n body \<Rightarrow> 'n disk \<times> 'n response" where
  "fs_rename R disk folder b =
     (case readScene R disk folder of
        None \<Rightarrow> (disk, failure 404)
      | Some scene \<Rightarrow>
          if \<not> truthy R (field b ''name'') \<or> \<not> truthy R (field b ''password'') then (disk, failure 400)
          else fs_authorized R disk scene (field b ''password'')
                 (fs_write_and_reply R disk folder
                    ((scene_raw scene)\<lparr> doc_projectName := field b ''name'' \<rparr>)))"

definition fs_notes :: "'n runtime \<Rightarrow> 'n disk \<Rightarrow> string \<Rightarrow> 'n body \<Rightarrow> 'n disk \<times> 'n response" where
  "fs_notes R disk folder b =
     (case readScene R disk folder of
        None \<Rightarrow> (disk, failure 404)
      | Some scene \<Rightarrow>
          if \<not> is_string (field b ''notes'') \<or> \<not> truthy R (field b ''password'')
          then (disk, failure 400)
          else fs_authorized R disk scene (field b ''password'')
                 (fs_write_and_reply R disk folder
                    ((scene_raw scene)\<lparr> doc_pendingNotes := field b ''notes'' \<rparr>)))"

definition fs_parts_meta :: "'n runtime \<Rightarrow> 'n disk \<Rightarrow> string \<Rightarrow> 'n body \<Rightarrow> 'n disk \<times> 'n response" where
  "fs_parts_meta R disk folder b =
     (case readScene R disk folder of
        None \<Rightarrow> (disk, failure 404)
      | Some scene \<Rightarrow>
          if field b ''partId'' = JUndef \<or> \<not> truthy R (field b ''password'') then (disk, failure 400)
          else fs_authorized R disk scene (field b ''password'')
                 (case put_part R b (doc_partsMeta (scene_raw scene)) of
                    Inl e \<Rightarrow> (disk, failure 500)
                  | Inr partsMeta \<Rightarrow>
                      fs_write_and_reply R disk folder
                        ((scene_raw scene)\<lparr> doc_partsMeta := partsMeta \<rparr>)))"

text \<open>\<open>DELETE /api/projects/:id\<close>: \<open>fs.rmSync(projectDir, { recursive: true, force: true })\<close>.\<close>

definition fs_delete :: "'n runtime \<Rightarrow> 'n disk \<Rightarrow> string \<Rightarrow> 'n body \<Rightarrow> 'n disk \<times> 'n response" where
  "fs_delete R disk folder b =
     (case readScene R disk folder of
        None \<Rightarrow> (disk, failure 404)
      | Some scene \<Rightarrow>
          if \<not> truthy R (field b ''password'') then (disk, failure 400)
          else fs_authorized R disk scene (field b ''password'')
                 (filter (\<lambda>(name, fo). name \<noteq> folder) disk, success 200 NoData))"

subsection \<open>Quotes in the filesystem variant\<close>

text \<open>\<open>GET /api/quotes/:id\<close>.\<close>

definition fs_get_quote :: "'n disk \<Rightarrow> string \<Rightarrow> 'n response" where
  "fs_get_quote disk folder =
     (case lookup disk folder of
        None \<Rightarrow> failure 404
      | Some fo \<Rightarrow>
         (case cotizacion_json fo of
            None \<Rightarrow> failure 404
          | Some quoteDoc \<Rightarrow> success 200 (QuoteFile quoteDoc)))"

text \<open>\<open>typeof total === "number" ? total : computedTotal\<close>.\<close>

definition fs_finalTotal :: "'n runtime \<Rightarrow> 'n jsval \<Rightarrow> 'n item list \<Rightarrow> 'n" where
  "fs_finalTotal R tot xs = (case tot of JNum t \<Rightarrow> t | _ \<Rightarrow> computedTotal R xs)"

text \<open>The quote document that the filesystem variant writes.\<close>

definition fs_quoteDoc :: "string \<Rightarrow> 'n jsval \<Rightarrow> string \<Rightarrow> 'n item list \<Rightarrow> 'n \<Rightarrow> 'n jsval" where
  "fs_quoteDoc folder name date xs t =
     JObj [(''projectId'', JStr folder), (''projectName'', name), (''date'', JStr date),
           (''items'', JArr (map item_json xs)), (''total'', JNum t)]"

text \<open>
  \<open>PUT /api/quotes/:id\<close>.  The document goes through \<open>JSON.stringify\<close> twice, into the
  file and (by \<open>res.json\<close>) into the response.
\<close>

definition fs_put_quote :: "'n runtime \<Rightarrow> 'n disk \<Rightarrow> string \<Rightarrow> 'n body \<Rightarrow> 'n disk \<times> 'n response" where
  "fs_put_quote R disk folder b =
     (case readScene R disk folder of
        None \<Rightarrow> (disk, failure 404)
      | Some scene \<Rightarrow>
         (case field b ''items'' of
            JArr its \<Rightarrow>
              if \<not> truthy R (field b ''password'') then (disk, failure 400)
              else fs_authorized R disk scene (field b ''password'')
                (case normalize_items R its of
                   Inl e \<Rightarrow> (disk, failure 500)
                 | Inr normalizedItems \<Rightarrow>
                     let quoteDoc = fs_quoteDoc folder (scene_name scene) (now_iso R) normalizedItems
                                      (fs_finalTotal R (field b ''total'') normalizedItems)
                     in (assign disk folder
                           ((folder_of disk folder)\<lparr> cotizacion_json := Some (jsonify R quoteDoc) \<rparr>),
                         success 200 (QuoteFile (jsonify R quoteDoc))))
          | _ \<Rightarrow> (disk, failure 400)))"

text \<open>\<open>buildQuoteWorkbook\<close> of the filesystem variant and \<open>GET /api/quotes/:id/excel\<close>.\<close>

definition fs_item_row :: "'n runtime \<Rightarrow> 'n jsval \<Rightarrow> exn + (string \<times> 'n jsval) list" where
  "fs_item_row R it =
     andThen (member R it ''concepto'') (\<lambda>c.
     andThen (member R it ''cantidad'') (\<lambda>q.
     andThen (member R it ''precio'') (\<lambda>p.
     andThen (toNumber R q) (\<lambda>qn.
     andThen (toNumber R p) (\<lambda>pn.
      Inr [(''Concepto'', c), (''Cantidad'', q), (''Precio'', p),
           (''Importe'', JNum (num_mul R qn pn))])))))"

definition fs_buildQuoteWorkbook :: "'n runtime \<Rightarrow> 'n jsval \<Rightarrow> exn + 'n workbook" where
  "fs_buildQuoteWorkbook R quoteDoc =
     andThen (map_items R (fs_item_row R) quoteDoc) (\<lambda>rows.
     andThen (member R quoteDoc ''total'') (\<lambda>tot.
      Inr \<lparr> sheet_name = sheet_title, sheet_header = quote_columns,
            sheet_rows = rows @ [[], total_row tot] \<rparr>))"

definition fs_excel :: "'n runtime \<Rightarrow> 'n disk \<Rightarrow> string \<Rightarrow> 'n response" where
  "fs_excel R disk folder =
     (case lookup disk folder of
        None \<Rightarrow> failure 404
      | Some fo \<Rightarrow>
         (case cotizacion_json fo of
            None \<Rightarrow> failure 404
          | Some quoteDoc \<Rightarrow>
             (case fs_buildQuoteWorkbook R quoteDoc of
                Inl e \<Rightarrow> failure 500
              | Inr wb \<Rightarrow> success 200 (ExcelFile wb))))"


section \<open>A concrete platform for evaluation\<close>

text \<open>
  To run the model on explicit inputs the platform is instantiated: numbers are the
  integers together with NaN and the two infinities, strings are ASCII (so
  normalisation is the identity and lower-casing acts on A..Z), and the hash is a
  stand-in for SHA-256.  Objects coerce as a plain object does, \<open>JSON.parse\<close> knows the
  one text that the examples use (\<open>null\<close>), the one inherited property is
  \<open>constructor\<close>, and the folders are listed in the order of the state.  On ASCII strings and on integers
  small enough to be exact in a double this agrees with Node.js.
\<close>

datatype dnum = DNaN | DInf bool | DInt int

fun dnum_add :: "dnum \<Rightarrow> dnum \<Rightarrow> dnum" where
  "dnum_add DNaN y = DNaN"
| "dnum_add x DNaN = DNaN"
| "dnum_add (DInf a) (DInf b) = (if a = b then DInf a else DNaN)"
| "dnum_add (DInf a) (DInt j) = DInf a"
| "dnum_add (DInt i) (DInf b) = DInf b"
| "dnum_add (DInt i) (DInt j) = DInt (i + j)"

fun dnum_mul :: "dnum \<Rightarrow> dnum \<Rightarrow> dnum" where
  "dnum_mul DNaN y = DNaN"
| "dnum_mul x DNaN = DNaN"
| "dnum_mul (DInf a) (DInf b) = DInf (a = b)"
| "dnum_mul (DInf a) (DInt j) = (if j = 0 then DNaN else DInf (a = (0 < j)))"
| "dnum_mul (DInt i) (DInf b) = (if i = 0 then DNaN else DInf (b = (0 < i)))"
| "dnum_mul (DInt i) (DInt j) = DInt (i * j)"

fun dnum_isFinite :: "dnum \<Rightarrow> bool" where
  "dnum_isFinite (DInt i) = True"
| "dnum_isFinite x = False"

fun dnum_truthy :: "dnum \<Rightarrow> bool" where
  "dnum_truthy DNaN = False"
| "dnum_truthy (DInf a) = True"
| "dnum_truthy (DInt i) = (i \<noteq> 0)"

definition digit_char :: "nat \<Rightarrow> char" where
  "digit_char d = char_of (48 + d)"

fun nat_digits :: "nat \<Rightarrow> nat \<Rightarrow> string" where
  "nat_digits 0 n = []"
| "nat_digits (Suc fuel) n =
     (if n < 10 then [digit_char n] else nat_digits fuel (n div 10) @ [digit_char (n mod 10)])"

fun dnum_toString :: "dnum \<Rightarrow> string" where
  "dnum_toString DNaN = ''NaN''"
| "dnum_toString (DInf a) = (if a then ''Infinity'' else ''-Infinity'')"
| "dnum_toString (DInt i) =
     (if i < 0 then CHR ''-'' # nat_digits (Suc (nat (- i))) (nat (- i))
      else nat_digits (Suc (nat i)) (nat i))"

definition is_digit :: "char \<Rightarrow> bool" where
  "is_digit c = (48 \<le> (of_char c :: nat) \<and> (of_char c :: nat) \<le> 57)"

definition dnum_of_string :: "string \<Rightarrow> dnum" where
  "dnum_of_string s =
     (if s = [] then DInt 0
      else if list_all is_digit s
      then DInt (foldl (\<lambda>acc c. 10 * acc + (int (of_char c :: nat) - 48)) 0 s)
      else DNaN)"

definition ascii_lower :: "string \<Rightarrow> string" where
  "ascii_lower s =
     map (\<lambda>c. if 65 \<le> (of_char c :: nat) \<and> (of_char c :: nat) \<le> 90
               then char_of ((of_char c :: nat) + 32) else c) s"

text \<open>The extension of a file name: from its last dot, when that dot is not the first character.\<close>

fun last_dot :: "string \<Rightarrow> string \<Rightarrow> string" where
  "last_dot acc [] = acc"
| "last_dot acc (c # cs) = (if c = CHR ''.'' then last_dot (c # cs) cs else last_dot acc cs)"

definition ascii_extname :: "string \<Rightarrow> string" where
  "ascii_extname s = (case s of [] \<Rightarrow> [] | c # cs \<Rightarrow> last_dot [] cs)"

definition demo :: "dnum runtime" where
  "demo = \<lparr> sha256_hex = (\<lambda>s. ''sha256:'' @ s),
            normalizeNFD = (\<lambda>s. s),
            toLowerCase = ascii_lower,
            num_zero = DInt 0,
            num_one = DInt 1,
            num_nan = DNaN,
            num_add = dnum_add,
            num_mul = dnum_mul,
            num_isFinite = dnum_isFinite,
            num_truthy = dnum_truthy,
            num_toString = dnum_toString,
            str_toNumber = dnum_of_string,
            obj_toNumber = (\<lambda>v. Some DNaN),
            obj_toString = (\<lambda>v. Some ''[object Object]''),
            json_parse = (\<lambda>s. if s = ''null'' then Some JNull else None),
            path_extname = ascii_extname,
            proto_member = (\<lambda>v k. if k = ''constructor'' then JFun ''Object'' else JUndef),
            readdir = (\<lambda>names. names),
            getPublicUrl = (\<lambda>p. ''https://demo.supabase.co/storage/v1/object/public/models/'' @ p),
            now_iso = ''2024-01-01T00:00:00.000Z'' \<rparr>"


section \<open>Notions used in the statements\<close>

text \<open>
  The password of a request matches when the project is found and the SHA-256 hash of
  the password is the stored hash.
\<close>

definition sb_password_matches :: "'n runtime \<Rightarrow> faults \<Rightarrow> 'n db \<Rightarrow> string \<Rightarrow> 'n jsval \<Rightarrow> bool" where
  "sb_password_matches R fails d i password =
     (case getProjectById fails d i of
        Inl e \<Rightarrow> False
      | Inr project \<Rightarrow>
         (case hashPassword R password of
            Inl e \<Rightarrow> False
          | Inr hash \<Rightarrow> row_password_hash project = JStr hash))"

definition fs_password_matches :: "'n runtime \<Rightarrow> 'n disk \<Rightarrow> string \<Rightarrow> 'n jsval \<Rightarrow> bool" where
  "fs_password_matches R disk folder password =
     (case readScene R disk folder of
        None \<Rightarrow> False
      | Some scene \<Rightarrow>
         (case hashPassword R password of
            Inl e \<Rightarrow> False
          | Inr hash \<Rightarrow> scene_passwordHash scene = JStr hash))"

definition rename_required :: "'n runtime \<Rightarrow> 'n body \<Rightarrow> bool" where
  "rename_required R b = (truthy R (field b ''name'') \<and> truthy R (field b ''password''))"

definition notes_required :: "'n runtime \<Rightarrow> 'n body \<Rightarrow> bool" where
  "notes_required R b = (is_string (field b ''notes'') \<and> truthy R (field b ''password''))"

definition parts_required :: "'n runtime \<Rightarrow> 'n body \<Rightarrow> bool" where
  "parts_required R b = (field b ''partId'' \<noteq> JUndef \<and> truthy R (field b ''password''))"

definition delete_required :: "'n runtime \<Rightarrow> 'n body \<Rightarrow> bool" where
  "delete_required R b = truthy R (field b ''password'')"

definition is_array :: "'n jsval \<Rightarrow> bool" where
  "is_array v = (case v of JArr xs \<Rightarrow> True | _ \<Rightarrow> False)"

definition quote_required :: "'n runtime \<Rightarrow> 'n body \<Rightarrow> bool" where
  "quote_required R b = (truthy R (field b ''password'') \<and> is_array (field b ''items''))"


text \<open>
  A number that \<open>Number(n) || 0\<close> leaves as it is: a truthy one, or zero.  The other
  numbers, NaN and the negative zero, have no JSON form.
\<close>

definition clean :: "'n runtime \<Rightarrow> 'n \<Rightarrow> bool" where
  "clean R n = (num_truthy R n \<or> n = num_zero R)"

text \<open>
  The number that a stored number is read as: a number that is not finite was stored as
  \<open>null\<close>, which counts as 0.
\<close>

definition read_number :: "'n runtime \<Rightarrow> 'n \<Rightarrow> 'n" where
  "read_number R n = (if num_isFinite R n then n else num_zero R)"

text \<open>
  The sheet expected for the items \<open>xs\<close>: the Supabase variant shows the numbers as they
  are read, the filesystem variant shows the stored cells; the Importe is the product of
  the numbers read in both.
\<close>

definition sb_expected_row :: "'n runtime \<Rightarrow> 'n item \<Rightarrow> (string \<times> 'n jsval) list" where
  "sb_expected_row R x =
     [(''Concepto'', JStr (concepto x)), (''Cantidad'', JNum (read_number R (cantidad x))),
      (''Precio'', JNum (read_number R (precio x))),
      (''Importe'', JNum (num_mul R (read_number R (cantidad x)) (read_number R (precio x))))]"

definition fs_expected_row :: "'n runtime \<Rightarrow> 'n item \<Rightarrow> (string \<times> 'n jsval) list" where
  "fs_expected_row R x =
     [(''Concepto'', JStr (concepto x)), (''Cantidad'', jsonify R (JNum (cantidad x))),
      (''Precio'', jsonify R (JNum (precio x))),
      (''Importe'', JNum (num_mul R (read_number R (cantidad x)) (read_number R (precio x))))]"

definition expected_workbook :: "(string \<times> 'n jsval) list list \<Rightarrow> 'n jsval \<Rightarrow> 'n workbook" where
  "expected_workbook rows tot =
     \<lparr> sheet_name = sheet_title, sheet_header = quote_columns,
       sheet_rows = rows @ [[], total_row tot] \<rparr>"


section \<open>Example states\<close>

text \<open>One project \<open>p\<close> with the password \<open>secret\<close>, in either variant, and an upload.\<close>

definition row_ex :: "dnum project_row" where
  "row_ex = \<lparr> row_id = ''p'', row_name = JStr ''P'', row_author = JStr [],
              row_project_date = JStr ''2024-01-01'',
              row_password_hash = JStr (sha256_hex demo ''secret''),
              row_position = JNull, row_rotation = JNull,
              row_model_path = Some ''p/modelo.glb'', row_model_filename = Some ''modelo.glb'',
              row_pending_notes = JStr [], row_parts_meta = JObj [] \<rparr>"

definition db_ex :: "dnum db" where
  "db_ex = \<lparr> projects = [row_ex], quotes = [], bucket = [(''p/modelo.glb'', ''abc'')] \<rparr>"

definition doc_ex :: "dnum scene_doc" where
  "doc_ex = \<lparr> doc_projectName = JStr ''P'', doc_author = JStr [], doc_date = JStr ''2024-01-01'',
              doc_passwordHash = JStr (sha256_hex demo ''secret''),
              doc_position = JNull, doc_rotation = JNull, doc_modelFile = Some ''modelo.glb'',
              doc_pendingNotes = JStr [], doc_partsMeta = JObj [] \<rparr>"

definition disk_ex :: "dnum disk" where
  "disk_ex = [(''p'', \<lparr> scene_json = Some doc_ex, files = [(''modelo.glb'', ''abc'')],
                        cotizacion_json = None \<rparr>)]"

definition upload_ex :: upload where
  "upload_ex = \<lparr> originalname = ''pieza.obj'', filedata = ''xyz'' \<rparr>"


text \<open>A quote request whose total is not finite (the JSON number \<open>1e999\<close>), and two items.\<close>

definition quote_body_ex :: "dnum body" where
  "quote_body_ex = [(''password'', JStr ''secret''), (''items'', JArr []), (''total'', JNum (DInf True))]"

definition items_ex :: "dnum jsval list" where
  "items_ex = [JObj [(''concepto'', JStr ''tornillo''), (''cantidad'', JNum (DInt 4)), (''precio'', JStr ''5''),
                     (''link'', JStr ''http://x'')],
               JObj [(''concepto'', JStr ''placa'')]]"


definition xs_ex :: "dnum item list" where
  "xs_ex = [\<lparr> concepto = ''tornillo'', cantidad = DInt 4, precio = DInt 5, link = ''http://x'' \<rparr>,
            \<lparr> concepto = ''placa'', cantidad = DInt 0, precio = DInt 0, link = [] \<rparr>]"

text \<open>The \<open>projectId\<close> of a creation response.\<close>

definition created_id :: "'n payload \<Rightarrow> string option" where
  "created_id p =
     (case p of
        CreatedProject projectId project \<Rightarrow> Some projectId
      | CreatedFolder projectId projectFolder modelFile \<Rightarrow> Some projectId
      | _ \<Rightarrow> None)"

text \<open>The backend on which the insert into \<open>projects\<close> returns an error.\<close>

definition insert_fails :: faults where
  "insert_fails c = (c = InsertProject)"

text \<open>A creation form, and one that sends the password field twice.\<close>

definition twice_ex :: form where
  "twice_ex = [(''projectName'', Once ''Mi Proyecto''), (''password'', Several [''secret'', ''secret''])]"

definition form_ex :: form where
  "form_ex = [(''projectName'', Once ''Mi Proyecto''), (''password'', Once ''secret''),
              (''position'', Once ''null'')]"


text \<open>A sequence of quote-save requests, each with its project id and body.\<close>

definition sb_put_quotes :: "'n runtime \<Rightarrow> faults \<Rightarrow> 'n db \<Rightarrow> (string \<times> 'n body) list \<Rightarrow> 'n db" where
  "sb_put_quotes R fails d reqs = foldl (\<lambda>d' (i, b). fst (sb_put_quote R fails d' i b)) d reqs"

text \<open>A quote-save request with the two items.\<close>

definition save_ex :: "dnum body" where
  "save_ex = [(''password'', JStr ''secret''), (''items'', JArr items_ex)]"


text \<open>A transform request with a rotation only, and the folder of the project \<open>p\<close>.\<close>

definition rotate_ex :: "dnum body" where
  "rotate_ex = [(''rotation'', JStr ''r'')]"

definition folder_ex :: "dnum folder" where
  "folder_ex = \<lparr> scene_json = Some doc_ex, files = [(''modelo.glb'', ''abc'')], cotizacion_json = None \<rparr>"






text \<open>What \<open>readScene\<close> returns for the project \<open>p\<close>, and a rename request.\<close>

definition scene_ex :: "dnum scene" where
  "scene_ex = \<lparr> scene_id = ''p'', scene_name = JStr ''P'', scene_author = JStr [],
                scene_date = JStr ''2024-01-01'', scene_position = origin demo,
                scene_rotation = origin demo, scene_passwordHash = JStr (sha256_hex demo ''secret''),
                scene_modelFile = JStr ''modelo.glb'', scene_modelUrl = JStr ''/public/p/modelo.glb'',
                scene_pendingNotes = JStr [], scene_partsMeta = JObj [], scene_raw = doc_ex \<rparr>"












section \<open>Properties of slugify\<close>

text \<open>
  C9.  The claim is that a slug has no leading and no trailing hyphen.  The hyphens are
  trimmed before the cut at 40 characters, so the cut can end on one: the slug of 39
  letters, a space and one more letter is the 39 letters followed by a hyphen.
\<close>

theorem slugify_trailing_hyphen:
  "slugify demo (JStr (replicate 39 (CHR ''a'') @ '' b'')) = Inr (replicate 39 (CHR ''a'') @ ''-'')"
  by code_simp

text \<open>
  The rest of the shape holds for every string and every platform: a slug is not empty,
  has at most 40 characters, each a lower-case letter, a digit or a hyphen, and does not
  begin with a hyphen.
\<close>

lemma dash_runs_chars: "c \<in> set (dash_runs f s) \<Longrightarrow> alnum c \<or> c = CHR ''-''"
  by (induction s arbitrary: f) (auto split: if_splits)

lemma trim_hyphens_subset: "set (trim_hyphens s) \<subseteq> set s"
proof -
  have "set (dropWhile (\<lambda>c. c = CHR ''-'') (rev (dropWhile (\<lambda>c. c = CHR ''-'') s)))
          \<subseteq> set (rev (dropWhile (\<lambda>c. c = CHR ''-'') s))"
    by (auto dest: set_dropWhileD)
  also have "\<dots> \<subseteq> set s"
    by (auto dest: set_dropWhileD)
  finally show ?thesis by (simp add: trim_hyphens_def)
qed

lemma trim_hyphens_head:
  assumes "trim_hyphens s \<noteq> []"
  shows "hd (trim_hyphens s) \<noteq> CHR ''-''"
proof -
  define x where "x = dropWhile (\<lambda>c. c = CHR ''-'') s"
  have t: "trim_hyphens s = rev (dropWhile (\<lambda>c. c = CHR ''-'') (rev x))"
    by (simp add: trim_hyphens_def x_def)
  have "x = rev (dropWhile (\<lambda>c. c = CHR ''-'') (rev x)) @ rev (takeWhile (\<lambda>c. c = CHR ''-'') (rev x))"
    by (metis rev_append rev_rev_ident takeWhile_dropWhile_id)
  then have split: "x = trim_hyphens s @ rev (takeWhile (\<lambda>c. c = CHR ''-'') (rev x))"
    by (simp only: t)
  with assms have "x \<noteq> []" by auto
  then have "hd x \<noteq> CHR ''-''"
    unfolding x_def using hd_dropWhile [of "\<lambda>c. c = CHR ''-''" s] by simp
  moreover from split assms have "hd x = hd (trim_hyphens s)"
    by (metis hd_append2)
  ultimately show ?thesis by simp
qed

lemma slug_of_string_shape:
  "slug_of_string R s \<noteq> [] \<and> length (slug_of_string R s) \<le> 40
   \<and> (\<forall>c\<in>set (slug_of_string R s). alnum c \<or> c = CHR ''-'')
   \<and> hd (slug_of_string R s) \<noteq> CHR ''-''"
proof -
  define u where "u = trim_hyphens (dash_runs False (toLowerCase R (strip_marks (normalizeNFD R s))))"
  show ?thesis
  proof (cases "take 40 u = []")
    case True
    then have "slug_of_string R s = ''proyecto''"
      by (simp add: slug_of_string_def u_def)
    then show ?thesis by (simp add: alnum_def)
  next
    case False
    then have s: "slug_of_string R s = take 40 u"
      by (simp add: slug_of_string_def u_def Let_def)
    from False have un: "u \<noteq> []" by auto
    have chars: "\<forall>c\<in>set (take 40 u). alnum c \<or> c = CHR ''-''"
    proof
      fix c assume "c \<in> set (take 40 u)"
      then have "c \<in> set u" by (rule in_set_takeD)
      with trim_hyphens_subset have "c \<in> set (dash_runs False (toLowerCase R (strip_marks (normalizeNFD R s))))"
        unfolding u_def by blast
      then show "alnum c \<or> c = CHR ''-''" by (rule dash_runs_chars)
    qed
    from un have "hd (take 40 u) = hd u" by (cases u) simp_all
    moreover from un have "hd u \<noteq> CHR ''-''"
      unfolding u_def by (rule trim_hyphens_head)
    ultimately show ?thesis using False chars by (simp add: s)
  qed
qed

lemma slugify_of_string: "slugify R (JStr s) = Inr (slug_of_string R (if s = [] then ''proyecto'' else s))"
  by (simp add: slugify_def or_else_def)


section \<open>The password check\<close>

lemma sb_authorized_rejects:
  "\<not> sb_password_matches R fails d i pw \<Longrightarrow> fst (sb_authorized R fails d i pw action) = d"
  by (auto simp: sb_password_matches_def sb_authorized_def split: sum.splits db_error.splits)

lemma fs_authorized_rejects:
  "readScene R disk folder = Some scene \<Longrightarrow> \<not> fs_password_matches R disk folder pw \<Longrightarrow>
   fst (fs_authorized R disk scene pw action) = disk"
  by (auto simp: fs_password_matches_def fs_authorized_def split: sum.splits)

lemma sb_guarded:
  "\<not> sb_password_matches R fails d i (field b ''password'') \<Longrightarrow>
   fst (sb_rename R fails d i b) = d \<and> fst (sb_notes R fails d i b) = d \<and>
   fst (sb_parts_meta R fails d i b) = d \<and> fst (sb_delete R fails d i b) = d \<and>
   fst (sb_put_quote R fails d i b) = d"
  by (simp add: sb_rename_def sb_notes_def sb_parts_meta_def sb_delete_def sb_put_quote_def
        sb_authorized_rejects split: jsval.splits)

lemma sb_transform_guarded:
  "truthy R (field b ''password'') \<Longrightarrow> \<not> sb_password_matches R fails d i (field b ''password'') \<Longrightarrow>
   fst (sb_transform R fails d i b) = d"
  by (auto simp: sb_transform_def sb_password_matches_def Let_def split: sum.splits db_error.splits)

lemma fs_guarded:
  "\<not> fs_password_matches R disk i (field b ''password'') \<Longrightarrow>
   fst (fs_rename R disk i b) = disk \<and> fst (fs_notes R disk i b) = disk \<and>
   fst (fs_parts_meta R disk i b) = disk \<and> fst (fs_delete R disk i b) = disk \<and>
   fst (fs_put_quote R disk i b) = disk"
  by (simp add: fs_rename_def fs_notes_def fs_parts_meta_def fs_delete_def fs_put_quote_def
        fs_authorized_rejects split: option.splits jsval.splits)

lemma fs_transform_guarded:
  "truthy R (field b ''password'') \<Longrightarrow> \<not> fs_password_matches R disk i (field b ''password'') \<Longrightarrow>
   fst (fs_transform R disk i b) = disk"
  by (auto simp: fs_transform_def fs_password_matches_def Let_def split: sum.splits option.splits)

text \<open>
  C1 (as amended).  Rename, notes, parts-meta, delete and quote-save change the state
  only when the project is found and the SHA-256 hash of the supplied password equals
  the stored hash; the transform route gives the same guarantee for a request that
  carries a password.  The stores are compared before and after the request, whatever
  the response is.
\<close>

theorem writes_are_guarded:
  assumes "sop \<in> {sb_rename, sb_notes, sb_parts_meta, sb_delete, sb_put_quote}
           \<or> (sop = sb_transform \<and> truthy R (field b ''password''))"
    and "fop \<in> {fs_rename, fs_notes, fs_parts_meta, fs_delete, fs_put_quote}
           \<or> (fop = fs_transform \<and> truthy R (field b ''password''))"
  shows "(fst (sop R fails d i b) \<noteq> d \<longrightarrow> sb_password_matches R fails d i (field b ''password''))
       \<and> (fst (fop R disk i b) \<noteq> disk \<longrightarrow> fs_password_matches R disk i (field b ''password''))"
proof
  show "fst (sop R fails d i b) \<noteq> d \<longrightarrow> sb_password_matches R fails d i (field b ''password'')"
    using assms(1) sb_guarded [of R fails d i b] sb_transform_guarded [of R b fails d i] by auto
  show "fst (fop R disk i b) \<noteq> disk \<longrightarrow> fs_password_matches R disk i (field b ''password'')"
    using assms(2) fs_guarded [of R disk i b] fs_transform_guarded [of R b disk i] by auto
qed

text \<open>A rename with the right password changes the state, and the password matches.\<close>

theorem writes_are_guarded_witness:
  "fst (sb_rename demo no_faults db_ex ''p'' [(''name'', JStr ''Q''), (''password'', JStr ''secret'')]) \<noteq> db_ex
   \<and> sb_password_matches demo no_faults db_ex ''p''
        (field [(''name'', JStr ''Q''), (''password'', JStr ''secret'')] ''password'')
   \<and> fst (fs_rename demo disk_ex ''p'' [(''name'', JStr ''Q''), (''password'', JStr ''secret'')]) \<noteq> disk_ex
   \<and> fs_password_matches demo disk_ex ''p''
        (field [(''name'', JStr ''Q''), (''password'', JStr ''secret'')] ''password'')"
proof -
  have a: "fst (sb_rename demo no_faults db_ex ''p'' [(''name'', JStr ''Q''), (''password'', JStr ''secret'')]) \<noteq> db_ex"
    by code_simp
  have b: "fst (fs_rename demo disk_ex ''p'' [(''name'', JStr ''Q''), (''password'', JStr ''secret'')]) \<noteq> disk_ex"
    by code_simp
  have s: "sb_rename \<in> {sb_rename, sb_notes, sb_parts_meta, sb_delete, sb_put_quote}
           \<or> (sb_rename = sb_transform \<and> truthy demo (field [(''name'', JStr ''Q''), (''password'', JStr ''secret'')] ''password''))"
    by simp
  have f: "fs_rename \<in> {fs_rename, fs_notes, fs_parts_meta, fs_delete, fs_put_quote}
           \<or> (fs_rename = fs_transform \<and> truthy demo (field [(''name'', JStr ''Q''), (''password'', JStr ''secret'')] ''password''))"
    by simp
  from writes_are_guarded [OF s f, of no_faults db_ex "''p''" disk_ex] a b show ?thesis
    by blast
qed

text \<open>
  C1 as stated fails: a transform request without a password and a model replacement
  (which reads no password at all) change the stored project although no password
  matches.
\<close>

theorem unguarded_writes_counterexample:
  "fst (sb_transform demo no_faults db_ex ''p'' [(''position'', JStr ''moved'')]) \<noteq> db_ex
   \<and> \<not> sb_password_matches demo no_faults db_ex ''p'' (field [(''position'', JStr ''moved'')] ''password'')
   \<and> fst (fs_transform demo disk_ex ''p'' [(''position'', JStr ''moved'')]) \<noteq> disk_ex
   \<and> \<not> fs_password_matches demo disk_ex ''p'' (field [(''position'', JStr ''moved'')] ''password'')
   \<and> fst (sb_model demo no_faults db_ex ''p'' (Some upload_ex)) \<noteq> db_ex
   \<and> fst (fs_model demo disk_ex ''p'' (Some upload_ex)) \<noteq> disk_ex"
  by code_simp

text \<open>
  C2 (as amended).  For a stored project and a rename, notes, parts-meta, delete or
  quote-save request whose password is a string that hashes to a value different from
  the stored hash, the state is unchanged and the response is a failure: 403 when the
  required fields of the route are present, and 400 otherwise.
\<close>

theorem wrong_password_rejected:
  assumes "(sop, fop, required) \<in>
             {(sb_rename, fs_rename, rename_required), (sb_notes, fs_notes, notes_required),
              (sb_parts_meta, fs_parts_meta, parts_required), (sb_delete, fs_delete, delete_required),
              (sb_put_quote, fs_put_quote, quote_required)}"
    and "hashPassword R (field b ''password'') = Inr h"
  shows "(getProjectById fails d i = Inr project \<and> row_password_hash project \<noteq> JStr h \<longrightarrow>
            sop R fails d i b = (d, failure (if required R b then 403 else 400)))
       \<and> (readScene R disk i = Some scene \<and> scene_passwordHash scene \<noteq> JStr h \<longrightarrow>
            fop R disk i b = (disk, failure (if required R b then 403 else 400)))"
  using assms
  by (auto simp: sb_rename_def sb_notes_def sb_parts_meta_def sb_delete_def sb_put_quote_def
        fs_rename_def fs_notes_def fs_parts_meta_def fs_delete_def fs_put_quote_def
        rename_required_def notes_required_def parts_required_def delete_required_def
        quote_required_def is_array_def sb_authorized_def fs_authorized_def
        split: jsval.splits)

text \<open>A rename with a name and the wrong password: 403, nothing changed.\<close>

theorem wrong_password_rejected_witness:
  "sb_rename demo no_faults db_ex ''p'' [(''name'', JStr ''Q''), (''password'', JStr ''wrong'')]
     = (db_ex, failure 403)
   \<and> fs_rename demo disk_ex ''p'' [(''name'', JStr ''Q''), (''password'', JStr ''wrong'')]
     = (disk_ex, failure 403)"
proof -
  have m: "(sb_rename, fs_rename, rename_required) \<in>
             {(sb_rename, fs_rename, rename_required), (sb_notes, fs_notes, notes_required),
              (sb_parts_meta, fs_parts_meta, parts_required), (sb_delete, fs_delete, delete_required),
              (sb_put_quote, fs_put_quote, quote_required)}"
    by simp
  have h: "hashPassword demo (field [(''name'', JStr ''Q''), (''password'', JStr ''wrong'')] ''password'')
             = Inr ''sha256:wrong''"
    by code_simp
  have g: "getProjectById no_faults db_ex ''p'' = Inr row_ex \<and> row_password_hash row_ex \<noteq> JStr ''sha256:wrong''"
    by code_simp
  have r: "readScene demo disk_ex ''p'' = Some (the (readScene demo disk_ex ''p''))
           \<and> scene_passwordHash (the (readScene demo disk_ex ''p'')) \<noteq> JStr ''sha256:wrong''"
    by code_simp
  have q: "rename_required demo [(''name'', JStr ''Q''), (''password'', JStr ''wrong'')]"
    by code_simp
  from wrong_password_rejected [OF m h, of no_faults db_ex "''p''" row_ex disk_ex "the (readScene demo disk_ex ''p'')"] g r q
  show ?thesis by simp
qed

text \<open>
  C2 as stated fails: a rename request with a wrong password and no name is answered
  with 400, not 403, because the fields are validated before the password.
\<close>

theorem wrong_password_status_counterexample:
  "hashPassword demo (field [(''password'', JStr ''wrong'')] ''password'') = Inr ''sha256:wrong''
   \<and> getProjectById no_faults db_ex ''p'' = Inr row_ex
   \<and> row_password_hash row_ex \<noteq> JStr ''sha256:wrong''
   \<and> status (snd (sb_rename demo no_faults db_ex ''p'' [(''password'', JStr ''wrong'')])) = 400
   \<and> status (snd (fs_rename demo disk_ex ''p'' [(''password'', JStr ''wrong'')])) = 400"
  by code_simp


section \<open>Quotes and the spreadsheet\<close>

text \<open>
  C3.  The claim is that the stored total is the total of the body when that is a finite
  number, and the computed sum otherwise.  In the filesystem variant a total that is a
  number but not finite is taken as the total: with no items the computed sum is 0 and
  the Supabase variant stores 0, while the filesystem variant takes the infinite total
  (\<open>fs_finalTotal\<close>), which the file and the response then hold as \<open>null\<close>.
\<close>

theorem fs_quote_total_not_finite:
  "fs_finalTotal demo (field quote_body_ex ''total'') [] = DInf True
   \<and> snd (fs_put_quote demo disk_ex ''p'' quote_body_ex)
     = success 200 (QuoteFile (JObj [(''projectId'', JStr ''p''), (''projectName'', JStr ''P''),
                                     (''date'', JStr (now_iso demo)), (''items'', JArr []),
                                     (''total'', JNull)]))
   \<and> cotizacion_json (folder_of (fst (fs_put_quote demo disk_ex ''p'' quote_body_ex)) ''p'')
     = Some (JObj [(''projectId'', JStr ''p''), (''projectName'', JStr ''P''),
                   (''date'', JStr (now_iso demo)), (''items'', JArr []), (''total'', JNull)])
   \<and> \<not> num_isFinite demo (DInf True)
   \<and> computedTotal demo [] = DInt 0
   \<and> map quote_total (quotes (fst (sb_put_quote demo no_faults db_ex ''p'' quote_body_ex))) = [JNum (DInt 0)]"
  by code_simp

text \<open>
  What the Supabase variant stores on success: the normalised items, and as total the
  total of the body when it is a finite number and the computed sum otherwise.
\<close>

lemma sb_put_quote_stores:
  assumes "status (snd (sb_put_quote R fails d i b)) = 200"
  shows "\<exists>its xs. field b ''items'' = JArr its \<and> normalize_items R its = Inr xs
           \<and> fst (sb_put_quote R fails d i b)
               = d\<lparr>quotes := upsert_quote (quotes d)
                                (sb_quote_row R i xs (sb_finalTotal R (field b ''total'') xs))\<rparr>"
  using assms
  by (auto simp: sb_put_quote_def sb_authorized_def failure_def Let_def
        split: jsval.splits sum.splits db_error.splits if_splits)

lemma sb_finalTotal_rule:
  "sb_finalTotal R (JNum t) xs = (if num_isFinite R t then t else computedTotal R xs)"
  "\<forall>t. v \<noteq> JNum t \<Longrightarrow> sb_finalTotal R v xs = computedTotal R xs"
  by (auto simp: sb_finalTotal_def split: jsval.splits)

lemma number_or_zero_clean: "clean R n \<Longrightarrow> number_or_zero R (JNum n) = Inr n"
  by (auto simp: clean_def number_or_zero_def)

lemma number_or_zero_is_clean: "number_or_zero R v = Inr n \<Longrightarrow> clean R n"
  by (cases "toNumber R v") (auto simp: clean_def number_or_zero_def)

lemma andThen_Inr: "andThen m f = Inr y \<Longrightarrow> \<exists>x. m = Inr x \<and> f x = Inr y"
  by (cases m) auto

lemma normalize_item_clean:
  assumes "normalize_item R it = Inr x"
  shows "clean R (cantidad x) \<and> clean R (precio x)"
proof -
  from assms obtain qn pn q p where "number_or_zero R q = Inr qn" "number_or_zero R p = Inr pn"
    "cantidad x = qn" "precio x = pn"
    unfolding normalize_item_def
    by (fastforce dest!: andThen_Inr)
  then show ?thesis by (auto dest: number_or_zero_is_clean)
qed

lemma normalize_items_clean:
  "normalize_items R its = Inr xs \<Longrightarrow> x \<in> set xs \<Longrightarrow> clean R (cantidad x) \<and> clean R (precio x)"
proof (induction its arbitrary: xs)
  case Nil
  then show ?case by simp
next
  case (Cons it its)
  from Cons.prems(1) obtain y ys where y: "normalize_item R it = Inr y"
    and ys: "normalize_items R its = Inr ys" and xs: "xs = y # ys"
    by (fastforce dest!: andThen_Inr)
  show ?case
  proof (cases "x = y")
    case True
    with y show ?thesis by (simp add: normalize_item_clean)
  next
    case False
    with Cons.prems(2) xs have "x \<in> set ys" by simp
    with Cons.IH [OF ys] show ?thesis by simp
  qed
qed

lemma stored_number_read:
  "clean R n \<Longrightarrow> number_or_zero R (jsonify R (JNum n)) = Inr (read_number R n)"
  "toNumber R (jsonify R (JNum n)) = Inr (read_number R n)"
  by (auto simp: clean_def number_or_zero_def read_number_def)

lemma jsonify_item:
  "jsonify R (item_json x)
     = JObj [(''concepto'', JStr (concepto x)), (''cantidad'', jsonify R (JNum (cantidad x))),
             (''precio'', jsonify R (JNum (precio x))), (''link'', JStr (link x))]"
  by (simp add: item_json_def)

lemma jsonify_item_defined: "jsonify R (item_json x) \<noteq> JUndef"
  by (simp add: jsonify_item)

lemma jsonify_items:
  "jsonify R (JArr (map item_json xs)) = JArr (map (\<lambda>x. jsonify R (item_json x)) xs)"
  by (simp add: jsonify_item_defined comp_def)

lemma sb_item_row_stored:
  "clean R (cantidad x) \<Longrightarrow> clean R (precio x) \<Longrightarrow>
   sb_item_row R (jsonify R (item_json x)) = Inr (sb_expected_row R x)"
  by (simp add: jsonify_item sb_item_row_def sb_expected_row_def stored_number_read
        del: jsonify.simps)

lemma fs_item_row_stored: "fs_item_row R (jsonify R (item_json x)) = Inr (fs_expected_row R x)"
  by (simp add: jsonify_item fs_item_row_def fs_expected_row_def stored_number_read
        del: jsonify.simps)

lemma or_else_JArr: "or_else R (JArr xs) v = JArr xs"
  by (simp add: or_else_def)

lemma map_rows_stored:
  "(\<And>x. x \<in> set xs \<Longrightarrow> f (h x) = Inr (g x)) \<Longrightarrow> map_rows f (map h xs) = Inr (map g xs)"
  by (induction xs) auto

lemma fs_quoteDoc_stored:
  "member R (jsonify R (fs_quoteDoc i name u xs t)) ''items''
     = Inr (JArr (map (\<lambda>x. jsonify R (item_json x)) xs))"
  "member R (jsonify R (fs_quoteDoc i name u xs t)) ''total'' = Inr (jsonify R (JNum t))"
  by (simp_all add: fs_quoteDoc_def jsonify_item_defined comp_def)

text \<open>
  C4.  For a quote as the quote route stores it (the normalised items \<open>xs\<close> and a total,
  written as JSON) \<open>buildQuoteWorkbook\<close> of either variant returns the sheet named
  Cotizacion (with the accented o), with the header Concepto, Cantidad, Precio, Importe
  and no link column, and the rows: one per item, whose Importe is the product of its
  stored cantidad and precio (a stored \<open>null\<close> counting as 0), one empty row, and the
  TOTAL row with the stored total as Importe.
\<close>

theorem workbook_of_stored_quote:
  assumes "normalize_items R its = Inr xs" and "clean R t" and "num_isFinite R t"
  shows "quote_total (sb_quote_row R i xs t) = JNum t
       \<and> sb_buildQuoteWorkbook R (sb_quoteDoc R (sb_quote_row R i xs t))
         = Inr (expected_workbook (map (sb_expected_row R) xs) (JNum t))
       \<and> fs_buildQuoteWorkbook R (jsonify R (fs_quoteDoc i name u xs t'))
         = Inr (expected_workbook (map (fs_expected_row R) xs) (jsonify R (JNum t')))
       \<and> quote_columns = [''Concepto'', ''Cantidad'', ''Precio'', ''Importe'']
       \<and> sheet_title = ''Cotizaci'' @ [char_of (0xC3::nat), char_of (0xB3::nat)] @ ''n''"
proof -
  have sb_rows: "map_rows (sb_item_row R) (map (\<lambda>x. jsonify R (item_json x)) xs)
                   = Inr (map (sb_expected_row R) xs)"
    using assms(1) by (intro map_rows_stored sb_item_row_stored) (auto dest: normalize_items_clean)
  have fs_rows: "map_rows (fs_item_row R) (map (\<lambda>x. jsonify R (item_json x)) xs)
                   = Inr (map (fs_expected_row R) xs)"
    by (intro map_rows_stored fs_item_row_stored)
  have stored: "quote_total (sb_quote_row R i xs t) = JNum t"
    using assms(3) by (simp add: sb_quote_row_def)
  have tot: "number_or_zero R (or_else R (JNum t) (JNum (num_zero R))) = Inr t"
    using assms(2) by (auto simp: or_else_def number_or_zero_def clean_def)
  have "sb_buildQuoteWorkbook R (sb_quoteDoc R (sb_quote_row R i xs t))
         = Inr (expected_workbook (map (sb_expected_row R) xs) (JNum t))"
    using assms(3)
    by (simp add: sb_buildQuoteWorkbook_def sb_quoteDoc_def sb_quote_row_def map_items_def
          jsonify_items sb_rows tot expected_workbook_def or_else_JArr del: jsonify.simps(3))
  moreover have "fs_buildQuoteWorkbook R (jsonify R (fs_quoteDoc i name u xs t'))
         = Inr (expected_workbook (map (fs_expected_row R) xs) (jsonify R (JNum t')))"
    by (simp add: fs_buildQuoteWorkbook_def map_items_def fs_quoteDoc_stored fs_rows
          expected_workbook_def or_else_JArr del: jsonify.simps)
  ultimately show ?thesis using stored by (simp add: quote_columns_def sheet_title_def)
qed

text \<open>Two items, as the quote route normalises them, and the total 20.\<close>

theorem workbook_of_stored_quote_witness:
  "normalize_items demo items_ex = Inr xs_ex \<and> clean demo (DInt 20) \<and> num_isFinite demo (DInt 20)
   \<and> sb_buildQuoteWorkbook demo (sb_quoteDoc demo (sb_quote_row demo ''p'' xs_ex (DInt 20)))
      = Inr (expected_workbook (map (sb_expected_row demo) xs_ex) (JNum (DInt 20)))
   \<and> fs_buildQuoteWorkbook demo (jsonify demo (fs_quoteDoc ''p'' (JStr ''P'') (now_iso demo) xs_ex (DInt 20)))
      = Inr (expected_workbook (map (fs_expected_row demo) xs_ex) (jsonify demo (JNum (DInt 20))))
   \<and> sheet_rows (expected_workbook (map (sb_expected_row demo) xs_ex) (JNum (DInt 20)))
      = [[(''Concepto'', JStr ''tornillo''), (''Cantidad'', JNum (DInt 4)), (''Precio'', JNum (DInt 5)),
          (''Importe'', JNum (DInt 20))],
         [(''Concepto'', JStr ''placa''), (''Cantidad'', JNum (DInt 0)), (''Precio'', JNum (DInt 0)),
          (''Importe'', JNum (DInt 0))],
         [],
         [(''Concepto'', JStr ''TOTAL''), (''Cantidad'', JStr []), (''Precio'', JStr []),
          (''Importe'', JNum (DInt 20))]]"
proof -
  have n: "normalize_items demo items_ex = Inr xs_ex"
    by code_simp
  have c: "clean demo (DInt 20)"
    by code_simp
  have f: "num_isFinite demo (DInt 20)"
    by code_simp
  have r: "sheet_rows (expected_workbook (map (sb_expected_row demo) xs_ex) (JNum (DInt 20)))
      = [[(''Concepto'', JStr ''tornillo''), (''Cantidad'', JNum (DInt 4)), (''Precio'', JNum (DInt 5)),
          (''Importe'', JNum (DInt 20))],
         [(''Concepto'', JStr ''placa''), (''Cantidad'', JNum (DInt 0)), (''Precio'', JNum (DInt 0)),
          (''Importe'', JNum (DInt 0))],
         [],
         [(''Concepto'', JStr ''TOTAL''), (''Cantidad'', JStr []), (''Precio'', JStr []),
          (''Importe'', JNum (DInt 20))]]"
    by code_simp
  from workbook_of_stored_quote [OF n c f, where i = "''p''" and u = "now_iso demo"
         and name = "JStr ''P''" and t' = "DInt 20"] n c f r
  show ?thesis by simp
qed

text \<open>
  An item whose cantidad is the JSON number \<open>1e999\<close>: the quote is stored with the
  cantidad \<open>null\<close>, and the sheet of either variant has the Importe 0 for it.
\<close>

lemma workbook_not_finite_example:
  "normalize_items demo [JObj [(''concepto'', JStr ''x''), (''cantidad'', JNum (DInf True)), (''precio'', JNum (DInt 2))]]
     = Inr [\<lparr> concepto = ''x'', cantidad = DInf True, precio = DInt 2, link = [] \<rparr>]
   \<and> payload (fs_excel demo
        (fst (fs_put_quote demo disk_ex ''p''
               [(''password'', JStr ''secret''),
                (''items'', JArr [JObj [(''concepto'', JStr ''x''), (''cantidad'', JNum (DInf True)),
                                        (''precio'', JNum (DInt 2))]])])) ''p'')
     = ExcelFile (expected_workbook
         [[(''Concepto'', JStr ''x''), (''Cantidad'', JNull), (''Precio'', JNum (DInt 2)),
           (''Importe'', JNum (DInt 0))]] (JNum (DInt 0)))
   \<and> payload (sb_excel demo no_faults
        (fst (sb_put_quote demo no_faults db_ex ''p''
               [(''password'', JStr ''secret''),
                (''items'', JArr [JObj [(''concepto'', JStr ''x''), (''cantidad'', JNum (DInf True)),
                                        (''precio'', JNum (DInt 2))]])])) ''p'')
     = ExcelFile (expected_workbook
         [[(''Concepto'', JStr ''x''), (''Cantidad'', JNum (DInt 0)), (''Precio'', JNum (DInt 2)),
           (''Importe'', JNum (DInt 0))]] (JNum (DInt 0)))"
  by code_simp


section \<open>Creation\<close>

text \<open>
  C6 (as amended).  When \<open>projectName\<close>, \<open>password\<close> or the model file is missing,
  project creation answers 400 and leaves the state as it was: no record, no model.
  When all three are present, the name and the password each sent once, the filesystem
  variant answers 201 with \<open>ok: true\<close> and the slug of the name as the project id; the
  Supabase variant does so when the upload and the insert succeed, and answers 500 when
  one of them returns an error.
\<close>

theorem create_requires_fields:
  "(\<not> truthy R (form_field f ''projectName'') \<or> \<not> truthy R (form_field f ''password'') \<or> upl = None \<longrightarrow>
      sb_create R fails d f upl = (d, failure 400) \<and> fs_create R disk f upl = (disk, failure 400))
   \<and> (lookup f ''projectName'' = Some (Once name) \<and> name \<noteq> []
       \<and> lookup f ''password'' = Some (Once pw) \<and> pw \<noteq> [] \<and> upl = Some up \<longrightarrow>
        slugify R (form_field f ''projectName'') = Inr (slug_of_string R name)
      \<and> status (snd (fs_create R disk f upl)) = 201 \<and> ok (snd (fs_create R disk f upl))
      \<and> created_id (payload (snd (fs_create R disk f upl))) = Some (slug_of_string R name)
      \<and> (\<not> fails UploadObject \<and> \<not> fails InsertProject \<longrightarrow>
            status (snd (sb_create R fails d f upl)) = 201 \<and> ok (snd (sb_create R fails d f upl))
          \<and> created_id (payload (snd (sb_create R fails d f upl))) = Some (slug_of_string R name))
      \<and> (fails UploadObject \<or> fails InsertProject \<longrightarrow>
            snd (sb_create R fails d f upl) = failure 500))"
proof (intro conjI impI)
  assume a: "\<not> truthy R (form_field f ''projectName'') \<or> \<not> truthy R (form_field f ''password'') \<or> upl = None"
  then show "sb_create R fails d f upl = (d, failure 400)"
    by (auto simp: sb_create_def Let_def split: option.splits)
  from a show "fs_create R disk f upl = (disk, failure 400)"
    by (auto simp: fs_create_def Let_def split: option.splits)
next
  assume a: "lookup f ''projectName'' = Some (Once name) \<and> name \<noteq> []
       \<and> lookup f ''password'' = Some (Once pw) \<and> pw \<noteq> [] \<and> upl = Some up"
  then have pn: "form_field f ''projectName'' = (JStr name :: 'a jsval)"
    and pw: "form_field f ''password'' = (JStr pw :: 'a jsval)"
    by (simp_all add: form_field_def)
  from a have slug: "slugify R (JStr name) = Inr (slug_of_string R name)"
    by (simp add: slugify_def or_else_def)
  from slug pn show "slugify R (form_field f ''projectName'') = Inr (slug_of_string R name)"
    by simp
  from a have fs: "snd (fs_create R disk f upl)
      = success 201 (CreatedFolder (slug_of_string R name) (''public/'' @ slug_of_string R name) (modelFileName R up))"
    by (simp add: fs_create_def Let_def pn pw slug)
  from fs show "status (snd (fs_create R disk f upl)) = 201" by (simp add: success_def)
  from fs show "ok (snd (fs_create R disk f upl))" by (simp add: success_def)
  from fs show "created_id (payload (snd (fs_create R disk f upl))) = Some (slug_of_string R name)"
    by (simp add: success_def created_id_def)
  {
    assume b: "\<not> fails UploadObject \<and> \<not> fails InsertProject"
    with a have sb: "\<exists>v. snd (sb_create R fails d f upl) = success 201 (CreatedProject (slug_of_string R name) v)"
      by (auto simp: sb_create_def Let_def pn pw slug upload_object_def)
    from sb show "status (snd (sb_create R fails d f upl)) = 201" by (auto simp: success_def)
    from sb show "ok (snd (sb_create R fails d f upl))" by (auto simp: success_def)
    from sb show "created_id (payload (snd (sb_create R fails d f upl))) = Some (slug_of_string R name)"
      by (auto simp: success_def created_id_def)
  }
  assume "fails UploadObject \<or> fails InsertProject"
  with a show "snd (sb_create R fails d f upl) = failure 500"
    by (auto simp: sb_create_def Let_def pn pw slug upload_object_def)
qed

text \<open>A creation without a password, and one with the three parts.\<close>

theorem create_requires_fields_witness:
  "sb_create demo no_faults db_ex [(''projectName'', Once ''Mi Proyecto'')] (Some upload_ex) = (db_ex, failure 400)
   \<and> fs_create demo disk_ex [(''projectName'', Once ''Mi Proyecto'')] (Some upload_ex) = (disk_ex, failure 400)
   \<and> status (snd (fs_create demo disk_ex form_ex (Some upload_ex))) = 201
   \<and> created_id (payload (snd (fs_create demo disk_ex form_ex (Some upload_ex)))) = Some ''mi-proyecto''
   \<and> status (snd (sb_create demo no_faults db_ex form_ex (Some upload_ex))) = 201
   \<and> created_id (payload (snd (sb_create demo no_faults db_ex form_ex (Some upload_ex)))) = Some ''mi-proyecto''
   \<and> snd (sb_create demo insert_fails db_ex form_ex (Some upload_ex)) = failure 500"
proof -
  have a: "\<not> truthy demo (form_field [(''projectName'', Once ''Mi Proyecto'')] ''password'')"
    by code_simp
  have b: "lookup form_ex ''projectName'' = Some (Once ''Mi Proyecto'') \<and> ''Mi Proyecto'' \<noteq> []
           \<and> lookup form_ex ''password'' = Some (Once ''secret'') \<and> ''secret'' \<noteq> []
           \<and> Some upload_ex = Some upload_ex"
    by code_simp
  have c: "\<not> no_faults UploadObject \<and> \<not> no_faults InsertProject"
    by (simp add: no_faults_def)
  have e: "insert_fails UploadObject \<or> insert_fails InsertProject"
    by (simp add: insert_fails_def)
  have s: "slug_of_string demo ''Mi Proyecto'' = ''mi-proyecto''"
    by code_simp
  from create_requires_fields [where R = demo and f = "[(''projectName'', Once ''Mi Proyecto'')]"
         and upl = "Some upload_ex" and fails = no_faults and d = db_ex and disk = disk_ex] a
  have 1: "sb_create demo no_faults db_ex [(''projectName'', Once ''Mi Proyecto'')] (Some upload_ex) = (db_ex, failure 400)
   \<and> fs_create demo disk_ex [(''projectName'', Once ''Mi Proyecto'')] (Some upload_ex) = (disk_ex, failure 400)"
    by blast
  from create_requires_fields [where R = demo and f = form_ex and upl = "Some upload_ex"
         and fails = no_faults and d = db_ex and disk = disk_ex and name = "''Mi Proyecto''"
         and pw = "''secret''" and up = upload_ex] b c s
  have 2: "status (snd (fs_create demo disk_ex form_ex (Some upload_ex))) = 201
   \<and> created_id (payload (snd (fs_create demo disk_ex form_ex (Some upload_ex)))) = Some ''mi-proyecto''
   \<and> status (snd (sb_create demo no_faults db_ex form_ex (Some upload_ex))) = 201
   \<and> created_id (payload (snd (sb_create demo no_faults db_ex form_ex (Some upload_ex)))) = Some ''mi-proyecto''"
    by simp
  from create_requires_fields [where R = demo and f = form_ex and upl = "Some upload_ex"
         and fails = insert_fails and d = db_ex and disk = disk_ex and name = "''Mi Proyecto''"
         and pw = "''secret''" and up = upload_ex] b e
  have 3: "snd (sb_create demo insert_fails db_ex form_ex (Some upload_ex)) = failure 500"
    by blast
  from 1 2 3 show ?thesis by blast
qed

text \<open>
  C6 as stated fails: with the three parts present the Supabase variant answers 500 when
  the insert returns an error (as it does for a second project with the slug of a stored
  one, where the id is the key of the table), and both variants answer 500 when the
  password field is sent twice, since the hash of an array cannot be taken.
\<close>

theorem create_not_always_201_counterexample:
  "truthy demo (form_field form_ex ''projectName'' :: dnum jsval)
   \<and> truthy demo (form_field form_ex ''password'' :: dnum jsval)
   \<and> status (snd (sb_create demo insert_fails db_ex form_ex (Some upload_ex))) = 500
   \<and> truthy demo (form_field twice_ex ''projectName'' :: dnum jsval)
   \<and> truthy demo (form_field twice_ex ''password'' :: dnum jsval)
   \<and> status (snd (fs_create demo disk_ex twice_ex (Some upload_ex))) = 500
   \<and> status (snd (sb_create demo no_faults db_ex twice_ex (Some upload_ex))) = 500"
  by code_simp


section \<open>One quote per project\<close>

lemma sb_put_quote_success:
  assumes "status (snd (sb_put_quote R fails d i b)) = 200"
  shows "\<exists>xs t. sb_put_quote R fails d i b
               = (d\<lparr>quotes := upsert_quote (quotes d) (sb_quote_row R i xs t)\<rparr>,
                  success 200 (quote_reply R (sb_quote_row R i xs t)))"
  using assms
  by (auto simp: sb_put_quote_def sb_authorized_def failure_def Let_def
        split: jsval.splits sum.splits db_error.splits if_splits)

lemma sb_put_quote_failure:
  assumes "status (snd (sb_put_quote R fails d i b)) \<noteq> 200"
  shows "fst (sb_put_quote R fails d i b) = d"
  using assms
  by (auto simp: sb_put_quote_def sb_authorized_def success_def Let_def
        split: jsval.splits sum.splits db_error.splits if_splits)

lemma upsert_quote_ids:
  "quote_project_id row \<in> set (map quote_project_id rows) \<Longrightarrow>
   map quote_project_id (upsert_quote rows row) = map quote_project_id rows"
  by (simp add: upsert_quote_def)

lemma upsert_quote_distinct:
  "distinct (map quote_project_id rows) \<Longrightarrow> distinct (map quote_project_id (upsert_quote rows row))"
  by (cases "quote_project_id row \<in> set (map quote_project_id rows)")
     (simp_all add: upsert_quote_ids, simp add: upsert_quote_def)

lemma replace_absent:
  "k \<notin> set (map quote_project_id rows) \<Longrightarrow>
   filter (\<lambda>q. quote_project_id q = k) (map (\<lambda>q. if quote_project_id q = k then row else q) rows) = []"
  by (induction rows) auto

lemma replace_present:
  "distinct (map quote_project_id rows) \<Longrightarrow> quote_project_id row = k \<Longrightarrow>
   k \<in> set (map quote_project_id rows) \<Longrightarrow>
   filter (\<lambda>q. quote_project_id q = k) (map (\<lambda>q. if quote_project_id q = k then row else q) rows) = [row]"
proof (induction rows)
  case Nil
  then show ?case by simp
next
  case (Cons q qs)
  show ?case
  proof (cases "quote_project_id q = k")
    case True
    with Cons.prems(1) have "k \<notin> set (map quote_project_id qs)" by auto
    with True Cons.prems(2) show ?thesis by (simp add: replace_absent)
  next
    case False
    with Cons show ?thesis by auto
  qed
qed

lemma upsert_quote_single:
  assumes "distinct (map quote_project_id rows)"
  shows "filter (\<lambda>q. quote_project_id q = quote_project_id row) (upsert_quote rows row) = [row]"
proof (cases "quote_project_id row \<in> set (map quote_project_id rows)")
  case True
  with assms show ?thesis by (simp add: upsert_quote_def replace_present)
next
  case False
  then have "filter (\<lambda>q. quote_project_id q = quote_project_id row) rows = []"
    by (induction rows) auto
  with False show ?thesis by (simp add: upsert_quote_def)
qed

lemma sb_put_quote_distinct:
  assumes "distinct (map quote_project_id (quotes d))"
  shows "distinct (map quote_project_id (quotes (fst (sb_put_quote R fails d i b))))"
proof (cases "status (snd (sb_put_quote R fails d i b)) = 200")
  case True
  from sb_put_quote_success [OF True] obtain xs t where
    "fst (sb_put_quote R fails d i b) = d\<lparr>quotes := upsert_quote (quotes d) (sb_quote_row R i xs t)\<rparr>"
    by force
  with assms show ?thesis
    by (simp add: upsert_quote_distinct)
next
  case False
  from sb_put_quote_failure [OF False] assms show ?thesis by simp
qed

lemma sb_put_quotes_distinct:
  "distinct (map quote_project_id (quotes d)) \<Longrightarrow>
   distinct (map quote_project_id (quotes (sb_put_quotes R fails d reqs)))"
  unfolding sb_put_quotes_def
proof (induction reqs arbitrary: d)
  case Nil
  then show ?case by simp
next
  case (Cons r reqs)
  obtain i b where r: "r = (i, b)" by (cases r)
  from Cons.prems have "distinct (map quote_project_id (quotes (fst (sb_put_quote R fails d i b))))"
    by (rule sb_put_quote_distinct)
  from Cons.IH [OF this] r show ?case by simp
qed

lemma lookup_assign: "lookup (assign kvs k v) k = Some v"
  by (induction kvs) auto

lemma lookup_assign_other: "k' \<noteq> k \<Longrightarrow> lookup (assign kvs k v) k' = lookup kvs k'"
  by (induction kvs) auto

lemma fs_put_quote_success:
  assumes "status (snd (fs_put_quote R disk i b)) = 200"
  shows "\<exists>quoteDoc. fs_put_quote R disk i b
           = (assign disk i ((folder_of disk i)\<lparr> cotizacion_json := Some quoteDoc \<rparr>),
              success 200 (QuoteFile quoteDoc))"
  using assms
  by (auto simp: fs_put_quote_def fs_authorized_def failure_def Let_def
        split: jsval.splits sum.splits option.splits if_splits)

lemma upsert_quote_others:
  "j \<noteq> quote_project_id row \<Longrightarrow>
   filter (\<lambda>q. quote_project_id q = j) (upsert_quote rows row)
     = filter (\<lambda>q. quote_project_id q = j) rows"
proof -
  assume j: "j \<noteq> quote_project_id row"
  have "filter (\<lambda>q. quote_project_id q = j)
          (map (\<lambda>q. if quote_project_id q = quote_project_id row then row else q) rows)
        = filter (\<lambda>q. quote_project_id q = j) rows"
    using j by (induction rows) auto
  with j show ?thesis by (simp add: upsert_quote_def)
qed

lemma sb_put_quote_result:
  assumes "field b ''items'' = JArr its" and "normalize_items R its = Inr xs"
    and "status (snd (sb_put_quote R fails d i b)) = 200"
  shows "sb_put_quote R fails d i b
         = (d\<lparr>quotes := upsert_quote (quotes d)
                            (sb_quote_row R i xs (sb_finalTotal R (field b ''total'') xs))\<rparr>,
            success 200 (quote_reply R (sb_quote_row R i xs (sb_finalTotal R (field b ''total'') xs))))"
  using assms
  by (auto simp: sb_put_quote_def sb_authorized_def failure_def Let_def
        split: sum.splits db_error.splits if_splits)

lemma sb_put_quote_others:
  "j \<noteq> i \<Longrightarrow>
   filter (\<lambda>q. quote_project_id q = j) (quotes (fst (sb_put_quote R fails d i b)))
     = filter (\<lambda>q. quote_project_id q = j) (quotes d)"
proof (cases "status (snd (sb_put_quote R fails d i b)) = 200")
  case True
  assume j: "j \<noteq> i"
  from sb_put_quote_success [OF True] obtain xs t where
    "fst (sb_put_quote R fails d i b) = d\<lparr>quotes := upsert_quote (quotes d) (sb_quote_row R i xs t)\<rparr>"
    by force
  moreover have "quote_project_id (sb_quote_row R i xs t) = i"
    by (simp add: sb_quote_row_def)
  ultimately show ?thesis using j by (simp add: upsert_quote_others)
next
  case False
  from sb_put_quote_failure [OF False] show ?thesis by simp
qed

lemma fs_put_quote_result:
  assumes "field b ''items'' = JArr its" and "normalize_items R its = Inr xs"
    and "readScene R disk i = Some scene"
    and "status (snd (fs_put_quote R disk i b)) = 200"
  shows "fs_put_quote R disk i b
         = (assign disk i ((folder_of disk i)\<lparr> cotizacion_json :=
               Some (jsonify R (fs_quoteDoc i (scene_name scene) (now_iso R) xs
                                   (fs_finalTotal R (field b ''total'') xs))) \<rparr>),
            success 200 (QuoteFile (jsonify R (fs_quoteDoc i (scene_name scene) (now_iso R) xs
                                                 (fs_finalTotal R (field b ''total'') xs)))))"
  using assms
  by (auto simp: fs_put_quote_def fs_authorized_def failure_def Let_def
        split: sum.splits if_splits)

lemma fs_put_quote_others:
  "j \<noteq> i \<Longrightarrow> lookup (fst (fs_put_quote R disk i b)) j = lookup disk j"
  by (auto simp: fs_put_quote_def fs_authorized_def Let_def lookup_assign_other
        split: option.splits jsval.splits sum.splits)

text \<open>
  C7.  A project has at most one quote.  From a table with one row per project id, any
  sequence of quote-save requests leaves one row per project id.  A successful save for
  the project \<open>i\<close> leaves exactly one row for \<open>i\<close>, holding the normalised items and the
  total of that request, and the read route returns these items and this total; a save
  that fails changes nothing; the rows of the other projects are as before.  The read
  route answers 404 when the project has no row.  In the filesystem variant the quote
  is the file \<open>cotizacion.json\<close> of the folder: a successful save writes the document
  of the request, the read route returns it, the other folders are as before, and the
  read route answers 404 when there is no such file.
\<close>

theorem one_quote_per_project:
  assumes "distinct (map quote_project_id (quotes d))"
  shows "distinct (map quote_project_id (quotes (sb_put_quotes R fails d reqs)))
       \<and> (field b ''items'' = JArr its \<and> normalize_items R its = Inr xs
          \<and> status (snd (sb_put_quote R fails d i b)) = 200 \<longrightarrow>
            filter (\<lambda>q. quote_project_id q = i) (quotes (fst (sb_put_quote R fails d i b)))
              = [sb_quote_row R i xs (sb_finalTotal R (field b ''total'') xs)]
          \<and> sb_get_quote R no_faults (fst (sb_put_quote R fails d i b)) i
              = success 200
                  (QuoteData i (jsonify R (JArr (map item_json xs)))
                     (or_else R (jsonify R (JNum (sb_finalTotal R (field b ''total'') xs)))
                        (JNum (num_zero R))))
          \<and> snd (sb_put_quote R fails d i b)
              = sb_get_quote R no_faults (fst (sb_put_quote R fails d i b)) i)
       \<and> (status (snd (sb_put_quote R fails d i b)) \<noteq> 200 \<longrightarrow> fst (sb_put_quote R fails d i b) = d)
       \<and> (j \<noteq> i \<longrightarrow>
            filter (\<lambda>q. quote_project_id q = j) (quotes (fst (sb_put_quote R fails d i b)))
              = filter (\<lambda>q. quote_project_id q = j) (quotes d))
       \<and> (i \<notin> set (map quote_project_id (quotes d)) \<longrightarrow> sb_get_quote R no_faults d i = failure 404)
       \<and> (field b ''items'' = JArr its \<and> normalize_items R its = Inr xs
          \<and> readScene R disk i = Some scene
          \<and> status (snd (fs_put_quote R disk i b)) = 200 \<longrightarrow>
            fs_get_quote (fst (fs_put_quote R disk i b)) i
              = success 200
                  (QuoteFile (jsonify R (fs_quoteDoc i (scene_name scene) (now_iso R) xs
                                           (fs_finalTotal R (field b ''total'') xs))))
          \<and> snd (fs_put_quote R disk i b) = fs_get_quote (fst (fs_put_quote R disk i b)) i)
       \<and> (j \<noteq> i \<longrightarrow> lookup (fst (fs_put_quote R disk i b)) j = lookup disk j)
       \<and> (cotizacion_json (folder_of disk i) = None \<longrightarrow> fs_get_quote disk i = failure 404)"
proof (intro conjI impI)
  show "distinct (map quote_project_id (quotes (sb_put_quotes R fails d reqs)))"
    using assms by (rule sb_put_quotes_distinct)
next
  assume a: "field b ''items'' = JArr its \<and> normalize_items R its = Inr xs
          \<and> status (snd (sb_put_quote R fails d i b)) = 200"
  define row where "row = sb_quote_row R i xs (sb_finalTotal R (field b ''total'') xs)"
  have row: "quote_project_id row = i"
    by (simp add: row_def sb_quote_row_def)
  from a have a1: "field b ''items'' = JArr its" and a2: "normalize_items R its = Inr xs"
    and a3: "status (snd (sb_put_quote R fails d i b)) = 200"
    by blast+
  from sb_put_quote_result [OF a1 a2 a3] have put: "sb_put_quote R fails d i b
               = (d\<lparr>quotes := upsert_quote (quotes d) row\<rparr>, success 200 (quote_reply R row))"
    by (simp only: row_def)
  from upsert_quote_single [OF assms, of row] row
  have one: "filter (\<lambda>q. quote_project_id q = i) (upsert_quote (quotes d) row) = [row]"
    by simp
  from put one
  show "filter (\<lambda>q. quote_project_id q = i) (quotes (fst (sb_put_quote R fails d i b)))
          = [sb_quote_row R i xs (sb_finalTotal R (field b ''total'') xs)]"
    by (simp add: row_def)
  from put one
  have get: "sb_get_quote R no_faults (fst (sb_put_quote R fails d i b)) i = success 200 (quote_reply R row)"
    by (simp add: sb_get_quote_def select_quote_def no_faults_def single_def)
  have "quote_reply R row
          = QuoteData i (jsonify R (JArr (map item_json xs)))
              (or_else R (jsonify R (JNum (sb_finalTotal R (field b ''total'') xs))) (JNum (num_zero R)))"
    by (simp add: quote_reply_def row_def sb_quote_row_def or_else_def)
  with get
  show "sb_get_quote R no_faults (fst (sb_put_quote R fails d i b)) i
              = success 200
                  (QuoteData i (jsonify R (JArr (map item_json xs)))
                     (or_else R (jsonify R (JNum (sb_finalTotal R (field b ''total'') xs)))
                        (JNum (num_zero R))))"
    by simp
  from put get
  show "snd (sb_put_quote R fails d i b) = sb_get_quote R no_faults (fst (sb_put_quote R fails d i b)) i"
    by simp
next
  assume "status (snd (sb_put_quote R fails d i b)) \<noteq> 200"
  then show "fst (sb_put_quote R fails d i b) = d"
    by (rule sb_put_quote_failure)
next
  assume "j \<noteq> i"
  then show "filter (\<lambda>q. quote_project_id q = j) (quotes (fst (sb_put_quote R fails d i b)))
              = filter (\<lambda>q. quote_project_id q = j) (quotes d)"
    by (rule sb_put_quote_others)
next
  assume "i \<notin> set (map quote_project_id (quotes d))"
  then have "filter (\<lambda>q. quote_project_id q = i) (quotes d) = []"
    by (induction "quotes d") (auto simp: filter_empty_conv)
  then show "sb_get_quote R no_faults d i = failure 404"
    by (simp add: sb_get_quote_def select_quote_def no_faults_def single_def)
next
  assume a: "field b ''items'' = JArr its \<and> normalize_items R its = Inr xs
          \<and> readScene R disk i = Some scene
          \<and> status (snd (fs_put_quote R disk i b)) = 200"
  then have a1: "field b ''items'' = JArr its" and a2: "normalize_items R its = Inr xs"
    and a3: "readScene R disk i = Some scene"
    and a4: "status (snd (fs_put_quote R disk i b)) = 200"
    by blast+
  from fs_put_quote_result [OF a1 a2 a3 a4] have put: "fs_put_quote R disk i b
         = (assign disk i ((folder_of disk i)\<lparr> cotizacion_json :=
               Some (jsonify R (fs_quoteDoc i (scene_name scene) (now_iso R) xs
                                   (fs_finalTotal R (field b ''total'') xs))) \<rparr>),
            success 200 (QuoteFile (jsonify R (fs_quoteDoc i (scene_name scene) (now_iso R) xs
                                                 (fs_finalTotal R (field b ''total'') xs)))))"
    .
  then show "fs_get_quote (fst (fs_put_quote R disk i b)) i
              = success 200
                  (QuoteFile (jsonify R (fs_quoteDoc i (scene_name scene) (now_iso R) xs
                                           (fs_finalTotal R (field b ''total'') xs))))"
    by (simp add: fs_get_quote_def lookup_assign)
  with put show "snd (fs_put_quote R disk i b) = fs_get_quote (fst (fs_put_quote R disk i b)) i"
    by simp
next
  assume "j \<noteq> i"
  then show "lookup (fst (fs_put_quote R disk i b)) j = lookup disk j"
    by (rule fs_put_quote_others)
next
  assume "cotizacion_json (folder_of disk i) = None"
  then show "fs_get_quote disk i = failure 404"
    by (auto simp: fs_get_quote_def folder_of_def split: option.splits)
qed

text \<open>
  A save for the project \<open>p\<close> after an earlier one, a save with a wrong password, and
  the project \<open>q\<close>, which has no quote.
\<close>

theorem one_quote_per_project_witness:
  "distinct (map quote_project_id (quotes db_ex))
   \<and> map quote_total (quotes (sb_put_quotes demo no_faults db_ex [(''p'', quote_body_ex), (''p'', save_ex)]))
       = [JNum (DInt 20)]
   \<and> status (snd (sb_put_quote demo no_faults db_ex ''p'' save_ex)) = 200
   \<and> sb_get_quote demo no_faults (fst (sb_put_quote demo no_faults db_ex ''p'' save_ex)) ''p''
       = success 200 (QuoteData ''p'' (JArr (map item_json xs_ex)) (JNum (DInt 20)))
   \<and> fst (sb_put_quote demo no_faults db_ex ''p'' [(''password'', JStr ''wrong''), (''items'', JArr [])]) = db_ex
   \<and> filter (\<lambda>q. quote_project_id q = ''q'') (quotes (fst (sb_put_quote demo no_faults db_ex ''p'' save_ex))) = []
   \<and> sb_get_quote demo no_faults db_ex ''p'' = failure 404
   \<and> status (snd (fs_put_quote demo disk_ex ''p'' save_ex)) = 200
   \<and> fs_get_quote (fst (fs_put_quote demo disk_ex ''p'' save_ex)) ''p''
       = success 200 (QuoteFile (fs_quoteDoc ''p'' (JStr ''P'') (now_iso demo) xs_ex (DInt 20)))
   \<and> lookup (fst (fs_put_quote demo disk_ex ''p'' save_ex)) ''q'' = None
   \<and> fs_get_quote disk_ex ''p'' = failure 404"
proof -
  have d: "distinct (map quote_project_id (quotes db_ex))"
    by code_simp
  have h: "field save_ex ''items'' = JArr items_ex \<and> normalize_items demo items_ex = Inr xs_ex"
    by code_simp
  have s: "status (snd (sb_put_quote demo no_faults db_ex ''p'' save_ex)) = 200"
    by code_simp
  have w: "status (snd (sb_put_quote demo no_faults db_ex ''p'' [(''password'', JStr ''wrong''), (''items'', JArr [])])) \<noteq> 200"
    by code_simp
  have n: "''p'' \<notin> set (map quote_project_id (quotes db_ex))"
    by code_simp
  have r: "readScene demo disk_ex ''p'' = Some scene_ex"
    by code_simp
  have f: "status (snd (fs_put_quote demo disk_ex ''p'' save_ex)) = 200"
    by code_simp
  have c: "cotizacion_json (folder_of disk_ex ''p'') = None"
    by code_simp
  have j: "''q'' \<noteq> ''p''"
    by simp
  have t: "map quote_total (quotes (sb_put_quotes demo no_faults db_ex [(''p'', quote_body_ex), (''p'', save_ex)]))
       = [JNum (DInt 20)]"
    by code_simp
  have e1: "QuoteData ''p'' (jsonify demo (JArr (map item_json xs_ex)))
              (or_else demo (jsonify demo (JNum (sb_finalTotal demo (field save_ex ''total'') xs_ex)))
                 (JNum (num_zero demo)))
            = QuoteData ''p'' (JArr (map item_json xs_ex)) (JNum (DInt 20))"
    by code_simp
  have e2: "jsonify demo (fs_quoteDoc ''p'' (scene_name scene_ex) (now_iso demo) xs_ex
                            (fs_finalTotal demo (field save_ex ''total'') xs_ex))
            = fs_quoteDoc ''p'' (JStr ''P'') (now_iso demo) xs_ex (DInt 20)"
    by code_simp
  have e3: "filter (\<lambda>q. quote_project_id q = ''q'') (quotes db_ex) = [] \<and> lookup disk_ex ''q'' = None"
    by code_simp
  from one_quote_per_project [OF d, where R = demo and fails = no_faults
         and reqs = "[(''p'', quote_body_ex), (''p'', save_ex)]" and i = "''p''" and j = "''q''"
         and b = save_ex and its = items_ex and xs = xs_ex and disk = disk_ex and scene = scene_ex]
       d h s n r f c j t e1 e2 e3
  have 1: "sb_get_quote demo no_faults (fst (sb_put_quote demo no_faults db_ex ''p'' save_ex)) ''p''
       = success 200 (QuoteData ''p'' (JArr (map item_json xs_ex)) (JNum (DInt 20)))
   \<and> filter (\<lambda>q. quote_project_id q = ''q'') (quotes (fst (sb_put_quote demo no_faults db_ex ''p'' save_ex))) = []
   \<and> sb_get_quote demo no_faults db_ex ''p'' = failure 404
   \<and> fs_get_quote (fst (fs_put_quote demo disk_ex ''p'' save_ex)) ''p''
       = success 200 (QuoteFile (fs_quoteDoc ''p'' (JStr ''P'') (now_iso demo) xs_ex (DInt 20)))
   \<and> lookup (fst (fs_put_quote demo disk_ex ''p'' save_ex)) ''q'' = None
   \<and> fs_get_quote disk_ex ''p'' = failure 404"
    by (simp del: jsonify.simps)
  from one_quote_per_project [OF d, where R = demo and fails = no_faults and i = "''p''"
         and b = "[(''password'', JStr ''wrong''), (''items'', JArr [])]"] w
  have 2: "fst (sb_put_quote demo no_faults db_ex ''p'' [(''password'', JStr ''wrong''), (''items'', JArr [])]) = db_ex"
    by blast
  from 1 2 d s f t show ?thesis by blast
qed


section \<open>The transform route\<close>

lemma filter_patched:
  "(\<And>r. row_id (patch r) = row_id r) \<Longrightarrow>
   filter (\<lambda>r. row_id r = i) (map (\<lambda>r. if row_id r = i then patch r else r) rows)
     = map patch (filter (\<lambda>r. row_id r = i) rows)"
  by (induction rows) auto

lemma getProjectById_found:
  "getProjectById fails d i = Inr project \<Longrightarrow>
   \<not> fails SelectProject \<and> filter (\<lambda>r. row_id r = i) (projects d) = [project]"
  by (auto simp: getProjectById_def single_def split: if_splits list.splits)

lemma update_project_found:
  assumes "getProjectById fails d i = Inr project" and "\<not> fails UpdateProject"
    and "\<And>r. row_id (patch r) = row_id r"
  shows "update_project fails d i patch
         = (d\<lparr>projects := map (\<lambda>r. if row_id r = i then patch r else r) (projects d)\<rparr>,
            Inr (patch project))"
  using assms(2) getProjectById_found [OF assms(1)] filter_patched [of patch i "projects d", OF assms(3)]
  by (simp add: update_project_def single_def)

lemma sb_update_and_reply_status:
  "status (snd (sb_update_and_reply R fails d i patch)) = 200 \<Longrightarrow> \<not> fails UpdateProject"
  by (auto simp: sb_update_and_reply_def update_project_def failure_def split: if_splits)

lemma sb_transform_writes:
  assumes "getProjectById fails d i = Inr project"
    and "status (snd (sb_transform R fails d i b)) = 200"
  shows "sb_transform R fails d i b
         = sb_update_and_reply R fails d i
             (\<lambda>r. r\<lparr> row_position := jsonify R (chosen R (field b ''position'') (row_position project)),
                      row_rotation := jsonify R (chosen R (field b ''rotation'') (row_rotation project)) \<rparr>)"
  using assms
  by (auto simp: sb_transform_def Let_def failure_def split: sum.splits if_splits)

lemma fs_transform_writes:
  assumes "readScene R disk i = Some scene"
    and "status (snd (fs_transform R disk i b)) = 200"
  shows "fst (fs_transform R disk i b)
         = writeScene R disk i
             ((scene_raw scene)\<lparr> doc_position := or_else R (field b ''position'') (scene_position scene),
                                 doc_rotation := or_else R (field b ''rotation'') (scene_rotation scene) \<rparr>)"
  using assms
  by (auto simp: fs_transform_def fs_write_and_reply_def Let_def failure_def
        split: sum.splits if_splits option.splits)

lemma jsonify_doc_patch:
  "jsonify_doc R doc = doc \<Longrightarrow>
   jsonify_doc R (doc\<lparr> doc_position := p, doc_rotation := q \<rparr>)
     = doc\<lparr> doc_position := jsonify R p, doc_rotation := jsonify R q \<rparr>"
  by (cases doc) (simp add: jsonify_doc_def)

lemma jsonify_origin: "num_isFinite R (num_zero R) \<Longrightarrow> jsonify R (origin R) = origin R"
  by (simp add: origin_def)

text \<open>
  C8 (as amended).  A successful transform request changes only the position and the
  rotation of the stored project: the other columns of its row, the other rows, the
  quotes and the stored files are as before (in the filesystem variant: the other
  fields of \<open>scene.json\<close>, the other files of the folder, the other folders).  The
  value written is \<open>requested || stored || { x: 0, y: 0, z: 0 }\<close> in the form that JSON
  holds (a number that is not finite is written as \<open>null\<close>).  When the request gives no
  position (or a falsy one) the stored position is kept if it is truthy and is
  replaced by the default otherwise, so that the position shown in the view of the
  project does not change.  The same holds for the rotation.
\<close>

theorem transform_changes_position_and_rotation:
  "(getProjectById fails d i = Inr project \<and> status (snd (sb_transform R fails d i b)) = 200 \<longrightarrow>
      fst (sb_transform R fails d i b)
        = d\<lparr>projects :=
              map (\<lambda>r. if row_id r = i
                        then r\<lparr> row_position := jsonify R (chosen R (field b ''position'') (row_position project)),
                                row_rotation := jsonify R (chosen R (field b ''rotation'') (row_rotation project)) \<rparr>
                        else r) (projects d)\<rparr>)
   \<and> (lookup disk i = Some fo \<and> scene_json fo = Some doc \<and> jsonify_doc R doc = doc
       \<and> status (snd (fs_transform R disk i b)) = 200 \<longrightarrow>
      fst (fs_transform R disk i b)
        = assign disk i
            (fo\<lparr> scene_json :=
                   Some (doc\<lparr> doc_position := jsonify R (chosen R (field b ''position'') (doc_position doc)),
                              doc_rotation := jsonify R (chosen R (field b ''rotation'') (doc_rotation doc)) \<rparr>) \<rparr>))
   \<and> (\<not> truthy R requested \<longrightarrow>
        chosen R requested stored = (if truthy R stored then stored else origin R))
   \<and> (\<not> truthy R requested \<and> jsonify R stored = stored \<and> num_isFinite R (num_zero R) \<longrightarrow>
        or_else R (jsonify R (chosen R requested stored)) (origin R) = or_else R stored (origin R))"
proof (intro conjI impI)
  assume a: "getProjectById fails d i = Inr project \<and> status (snd (sb_transform R fails d i b)) = 200"
  let ?patch = "\<lambda>r. r\<lparr> row_position := jsonify R (chosen R (field b ''position'') (row_position project)),
                        row_rotation := jsonify R (chosen R (field b ''rotation'') (row_rotation project)) \<rparr>"
  from a sb_transform_writes [of fails d i project R b]
  have w: "sb_transform R fails d i b = sb_update_and_reply R fails d i ?patch"
    by blast
  with a have "\<not> fails UpdateProject"
    by (auto dest: sb_update_and_reply_status)
  with a have "update_project fails d i ?patch
         = (d\<lparr>projects := map (\<lambda>r. if row_id r = i then ?patch r else r) (projects d)\<rparr>,
            Inr (?patch project))"
    by (intro update_project_found) simp_all
  with w show "fst (sb_transform R fails d i b)
        = d\<lparr>projects := map (\<lambda>r. if row_id r = i then ?patch r else r) (projects d)\<rparr>"
    by (simp add: sb_update_and_reply_def)
next
  assume a: "lookup disk i = Some fo \<and> scene_json fo = Some doc \<and> jsonify_doc R doc = doc
       \<and> status (snd (fs_transform R disk i b)) = 200"
  then have s: "readScene R disk i = Some (scene_of R i doc)"
    by (simp add: readScene_def)
  from a have fo: "folder_of disk i = fo"
    by (simp add: folder_of_def)
  from a have clean: "jsonify_doc R doc = doc" by blast
  from a fs_transform_writes [OF s]
  have "fst (fs_transform R disk i b)
         = writeScene R disk i
             (doc\<lparr> doc_position := chosen R (field b ''position'') (doc_position doc),
                   doc_rotation := chosen R (field b ''rotation'') (doc_rotation doc) \<rparr>)"
    by (simp add: scene_of_def chosen_def)
  then show "fst (fs_transform R disk i b)
        = assign disk i
            (fo\<lparr> scene_json :=
                   Some (doc\<lparr> doc_position := jsonify R (chosen R (field b ''position'') (doc_position doc)),
                              doc_rotation := jsonify R (chosen R (field b ''rotation'') (doc_rotation doc)) \<rparr>) \<rparr>)"
    by (simp add: writeScene_def fo jsonify_doc_patch [OF clean])
next
  assume "\<not> truthy R requested"
  then show "chosen R requested stored = (if truthy R stored then stored else origin R)"
    by (simp add: chosen_def or_else_def)
next
  assume a: "\<not> truthy R requested \<and> jsonify R stored = stored \<and> num_isFinite R (num_zero R)"
  then have c: "chosen R requested stored = (if truthy R stored then stored else origin R)"
    by (simp add: chosen_def or_else_def)
  from a have o: "jsonify R (origin R) = origin R"
    by (simp add: jsonify_origin)
  from a c o show "or_else R (jsonify R (chosen R requested stored)) (origin R) = or_else R stored (origin R)"
    by (simp add: or_else_def)
qed

text \<open>The request applied to the project \<open>p\<close>, whose stored position is \<open>null\<close>.\<close>

theorem transform_changes_position_and_rotation_witness:
  "getProjectById no_faults db_ex ''p'' = Inr row_ex
   \<and> status (snd (sb_transform demo no_faults db_ex ''p'' rotate_ex)) = 200
   \<and> fst (sb_transform demo no_faults db_ex ''p'' rotate_ex)
       = db_ex\<lparr>projects := [row_ex\<lparr> row_position := origin demo, row_rotation := JStr ''r'' \<rparr>]\<rparr>
   \<and> jsonify_doc demo doc_ex = doc_ex
   \<and> status (snd (fs_transform demo disk_ex ''p'' rotate_ex)) = 200
   \<and> fst (fs_transform demo disk_ex ''p'' rotate_ex)
       = [(''p'', folder_ex\<lparr> scene_json := Some (doc_ex\<lparr> doc_position := origin demo,
                                                            doc_rotation := JStr ''r'' \<rparr>) \<rparr>)]
   \<and> \<not> truthy demo (JUndef :: dnum jsval)
   \<and> chosen demo JUndef (JStr ''here'') = JStr ''here''
   \<and> or_else demo (jsonify demo (chosen demo JUndef (JStr ''here''))) (origin demo) = JStr ''here''"
proof -
  have g: "getProjectById no_faults db_ex ''p'' = Inr row_ex"
    by code_simp
  have s: "status (snd (sb_transform demo no_faults db_ex ''p'' rotate_ex)) = 200"
    by code_simp
  have l: "lookup disk_ex ''p'' = Some folder_ex \<and> scene_json folder_ex = Some doc_ex
           \<and> jsonify_doc demo doc_ex = doc_ex"
    by code_simp
  have f: "status (snd (fs_transform demo disk_ex ''p'' rotate_ex)) = 200"
    by code_simp
  have u: "\<not> truthy demo (JUndef :: dnum jsval)"
    by simp
  have z: "jsonify demo (JStr ''here'' :: dnum jsval) = JStr ''here'' \<and> num_isFinite demo (num_zero demo)"
    by code_simp
  have e1: "db_ex\<lparr>projects :=
              map (\<lambda>r. if row_id r = ''p''
                        then r\<lparr> row_position := jsonify demo (chosen demo (field rotate_ex ''position'') (row_position row_ex)),
                                row_rotation := jsonify demo (chosen demo (field rotate_ex ''rotation'') (row_rotation row_ex)) \<rparr>
                        else r) (projects db_ex)\<rparr>
          = db_ex\<lparr>projects := [row_ex\<lparr> row_position := origin demo, row_rotation := JStr ''r'' \<rparr>]\<rparr>"
    by code_simp
  have e2: "assign disk_ex ''p''
            (folder_ex\<lparr> scene_json :=
                   Some (doc_ex\<lparr> doc_position := jsonify demo (chosen demo (field rotate_ex ''position'') (doc_position doc_ex)),
                              doc_rotation := jsonify demo (chosen demo (field rotate_ex ''rotation'') (doc_rotation doc_ex)) \<rparr>) \<rparr>)
          = [(''p'', folder_ex\<lparr> scene_json := Some (doc_ex\<lparr> doc_position := origin demo,
                                                            doc_rotation := JStr ''r'' \<rparr>) \<rparr>)]"
    by code_simp
  have e3: "or_else demo (JStr ''here'' :: dnum jsval) (origin demo) = JStr ''here''
            \<and> truthy demo (JStr ''here'' :: dnum jsval)"
    by code_simp
  from transform_changes_position_and_rotation
         [where fails = no_faults and d = db_ex and i = "''p''" and project = row_ex and R = demo
            and b = rotate_ex and disk = disk_ex and fo = folder_ex and doc = doc_ex
            and requested = JUndef and stored = "JStr ''here''"]
       g s l f u z e1 e2 e3
  show ?thesis by (simp del: jsonify.simps)
qed

text \<open>
  C8 as stated fails: a project created with the form field \<open>position\<close> = \<open>null\<close>
  has the stored position \<open>null\<close>; a transform request that omits the position
  does not keep it but stores the default vector.
\<close>

theorem transform_default_counterexample:
  "map row_position (projects (fst (sb_create demo no_faults \<lparr> projects = [], quotes = [], bucket = [] \<rparr>
                                      form_ex (Some upload_ex)))) = [JNull]
   \<and> field rotate_ex ''position'' = JUndef
   \<and> map row_position (projects db_ex) = [JNull]
   \<and> status (snd (sb_transform demo no_faults db_ex ''p'' rotate_ex)) = 200
   \<and> map row_position (projects (fst (sb_transform demo no_faults db_ex ''p'' rotate_ex)))
       = [JObj [(''x'', JNum (DInt 0)), (''y'', JNum (DInt 0)), (''z'', JNum (DInt 0))]]
   \<and> map_option doc_position (scene_json (folder_of disk_ex ''p'')) = Some JNull
   \<and> status (snd (fs_transform demo disk_ex ''p'' rotate_ex)) = 200
   \<and> map_option doc_position (scene_json (folder_of (fst (fs_transform demo disk_ex ''p'' rotate_ex)) ''p''))
       = Some (JObj [(''x'', JNum (DInt 0)), (''y'', JNum (DInt 0)), (''z'', JNum (DInt 0))])"
  by code_simp

text \<open>
  A requested position that JSON cannot hold, the number \<open>1e999\<close>, is written as
  \<open>null\<close> by either variant.
\<close>

lemma transform_not_finite_example:
  "map row_position (projects (fst (sb_transform demo no_faults db_ex ''p'' [(''position'', JNum (DInf True))])))
     = [JNull]
   \<and> map_option doc_position
        (scene_json (folder_of (fst (fs_transform demo disk_ex ''p'' [(''position'', JNum (DInf True))])) ''p''))
     = Some JNull"
  by code_simp


section \<open>The variants side by side\<close>














lemma scene_found:
  "lookup disk i = Some fo \<Longrightarrow> scene_json fo = Some doc \<Longrightarrow>
   readScene R disk i = Some (scene_of R i doc)"
  by (simp add: readScene_def)














section \<open>The password hash stays on the server\<close>
























end
